theory Spec2Isabelle
  imports Main "HOL-Library.Monad_Syntax"
begin

section \<open>Python values, dictionaries and the runtime environment\<close>

text \<open>
  A UUID is a 128-bit value; only equality on it is used, so it is a natural number.
  A naive UTC \<open>datetime\<close> is its number of microseconds since the epoch; a \<open>date\<close>
  is its year, month and day.
\<close>

type_synonym uuid = nat
type_synonym datetime = int

datatype date = Date nat nat nat

text \<open>\<open>str(d)\<close> for a \<open>date\<close>: the ISO rendering \<open>YYYY-MM-DD\<close>, zero padded.\<close>

definition digit :: "nat \<Rightarrow> char" where
  "digit n = ''0123456789'' ! (n mod 10)"

fun str_date :: "date \<Rightarrow> string" where
  "str_date (Date y m d) =
     [digit (y div 1000), digit (y div 100), digit (y div 10), digit y] @ ''-'' @
     [digit (m div 10), digit m] @ ''-'' @
     [digit (d div 10), digit d]"

text \<open>The values that \<open>model_dump()\<close> puts into a dictionary.\<close>

datatype pyval =
    PNone
  | PStr string
  | PInt int
  | PUUID uuid
  | PDatetime datetime
  | PDate date
  | PList "pyval list"
  | PDict "(string \<times> pyval) list"

text \<open>
  A Python \<open>dict\<close> keeps insertion order, so it is an association list:
  assigning to an existing key keeps the key's position, a new key goes to the end.
\<close>

type_synonym ('k, 'v) dict = "('k \<times> 'v) list"
type_synonym pydict = "(string, pyval) dict"

definition dict_contains :: "'k \<Rightarrow> ('k, 'v) dict \<Rightarrow> bool" where
  \<comment> \<open>\<open>k in d\<close>\<close>
  "dict_contains k d = (map_of d k \<noteq> None)"

definition dict_get :: "('k, 'v) dict \<Rightarrow> 'k \<Rightarrow> 'v option" where
  \<comment> \<open>\<open>d[k]\<close>; \<open>None\<close> is the KeyError\<close>
  "dict_get d k = map_of d k"

fun dict_set :: "'k \<Rightarrow> 'v \<Rightarrow> ('k, 'v) dict \<Rightarrow> ('k, 'v) dict" where
  \<comment> \<open>\<open>d[k] = v\<close>\<close>
  "dict_set k v [] = [(k, v)]"
| "dict_set k v (p # ps) = (if fst p = k then (k, v) # ps else p # dict_set k v ps)"

definition dict_del :: "'k \<Rightarrow> ('k, 'v) dict \<Rightarrow> ('k, 'v) dict" where
  \<comment> \<open>\<open>del d[k]\<close>\<close>
  "dict_del k d = filter (\<lambda>p. fst p \<noteq> k) d"

definition dict_values :: "('k, 'v) dict \<Rightarrow> 'v list" where
  \<comment> \<open>\<open>list(d.values())\<close>\<close>
  "dict_values d = map snd d"

definition dict_update :: "('k, 'v) dict \<Rightarrow> ('k, 'v) dict \<Rightarrow> ('k, 'v) dict" where
  \<comment> \<open>\<open>d.update(other)\<close>\<close>
  "dict_update d other = foldl (\<lambda>acc p. dict_set (fst p) (snd p) acc) d other"

text \<open>
  The exceptions a handler can end with: an \<open>HTTPException\<close> it raises itself, with
  its status code and detail, the \<open>ValidationError\<close> a model constructor raises, or
  the \<open>KeyError\<close> of \<open>d[k]\<close> on a missing key.
\<close>

datatype error = HTTPException nat string | ValidationError | KeyError

definition dict_getitem :: "('k, 'v) dict \<Rightarrow> 'k \<Rightarrow> error + 'v" where
  \<comment> \<open>\<open>d[k]\<close> as an expression\<close>
  "dict_getitem d k = (case dict_get d k of None \<Rightarrow> Inl KeyError | Some v \<Rightarrow> Inr v)"

text \<open>
  The status of the response: the route's own \<open>status_code\<close> when the handler
  returns, the exception's code for an \<open>HTTPException\<close>, and 500 for any other
  exception, which the framework does not catch.
\<close>

definition response_status :: "nat \<Rightarrow> error + 'a \<Rightarrow> nat" where
  "response_status route_code r =
     (case r of
        Inr _ \<Rightarrow> route_code
      | Inl (HTTPException code _) \<Rightarrow> code
      | Inl _ \<Rightarrow> 500)"

text \<open>How pydantic reads one keyword argument of a model constructor.\<close>

fun as_str :: "pyval \<Rightarrow> string option" where
  "as_str (PStr s) = Some s"
| "as_str _ = None"

fun as_int :: "pyval \<Rightarrow> int option" where
  "as_int (PInt i) = Some i"
| "as_int _ = None"

fun as_uuid :: "pyval \<Rightarrow> uuid option" where
  "as_uuid (PUUID u) = Some u"
| "as_uuid _ = None"

fun as_datetime :: "pyval \<Rightarrow> datetime option" where
  "as_datetime (PDatetime t) = Some t"
| "as_datetime _ = None"

fun as_date :: "pyval \<Rightarrow> date option" where
  "as_date (PDate d) = Some d"
| "as_date _ = None"

definition required :: "pydict \<Rightarrow> string \<Rightarrow> (pyval \<Rightarrow> 'a option) \<Rightarrow> 'a option" where
  \<comment> \<open>a field declared \<open>T = Field(...)\<close>: a missing key or a value that is not a \<open>T\<close>
      (\<open>None\<close> included) is invalid\<close>
  "required kw k conv = (case dict_get kw k of None \<Rightarrow> None | Some v \<Rightarrow> conv v)"

definition optional :: "pydict \<Rightarrow> string \<Rightarrow> (pyval \<Rightarrow> 'a option) \<Rightarrow> 'a option option" where
  \<comment> \<open>a field declared \<open>Optional[T] = Field(None)\<close>\<close>
  "optional kw k conv =
     (case dict_get kw k of
        None \<Rightarrow> Some None
      | Some PNone \<Rightarrow> Some None
      | Some v \<Rightarrow> map_option Some (conv v))"

definition opt :: "('a \<Rightarrow> pyval) \<Rightarrow> 'a option \<Rightarrow> pyval" where
  \<comment> \<open>the dump of an \<open>Optional[T]\<close> value\<close>
  "opt f x = (case x of None \<Rightarrow> PNone | Some v \<Rightarrow> f v)"

text \<open>
  A field of an update model is \<open>Optional[T] = Field(None)\<close>, and the model remembers
  which fields the request set: a field is unset, or supplied with \<open>null\<close>, or supplied
  with a value. \<open>model_dump(exclude_unset=True)\<close> keeps the supplied ones.
\<close>

datatype 'a field = Unset | Supplied "'a option"

definition dump_field :: "string \<Rightarrow> ('a \<Rightarrow> pyval) \<Rightarrow> 'a field \<Rightarrow> pydict" where
  "dump_field k f x = (case x of Unset \<Rightarrow> [] | Supplied v \<Rightarrow> [(k, opt f v)])"

section \<open>Course models (models/course.py)\<close>

record CourseBase =
  course_code :: string
  c_title :: string
  c_description :: string
  credits :: int
  instructor :: string
  schedule :: string
  semester :: "string option"
  location :: "string option"

type_synonym CourseCreate = CourseBase

record CourseUpdate =
  cu_course_code :: "string field"
  cu_title :: "string field"
  cu_description :: "string field"
  cu_credits :: "int field"
  cu_instructor :: "string field"
  cu_schedule :: "string field"
  cu_semester :: "string field"
  cu_location :: "string field"

record CourseRead = CourseBase +
  c_id :: uuid
  c_created_at :: datetime
  c_updated_at :: datetime

definition CourseBase_model_dump :: "'a CourseBase_scheme \<Rightarrow> pydict" where
  "CourseBase_model_dump c =
     [(''course_code'', PStr (course_code c)),
      (''title'', PStr (c_title c)),
      (''description'', PStr (c_description c)),
      (''credits'', PInt (credits c)),
      (''instructor'', PStr (instructor c)),
      (''schedule'', PStr (schedule c)),
      (''semester'', opt PStr (semester c)),
      (''location'', opt PStr (location c))]"

definition CourseRead_model_dump :: "CourseRead \<Rightarrow> pydict" where
  "CourseRead_model_dump c =
     CourseBase_model_dump c @
     [(''id'', PUUID (c_id c)),
      (''created_at'', PDatetime (c_created_at c)),
      (''updated_at'', PDatetime (c_updated_at c))]"

definition CourseUpdate_model_dump_exclude_unset :: "CourseUpdate \<Rightarrow> pydict" where
  "CourseUpdate_model_dump_exclude_unset u =
     dump_field ''course_code'' PStr (cu_course_code u) @
     dump_field ''title'' PStr (cu_title u) @
     dump_field ''description'' PStr (cu_description u) @
     dump_field ''credits'' PInt (cu_credits u) @
     dump_field ''instructor'' PStr (cu_instructor u) @
     dump_field ''schedule'' PStr (cu_schedule u) @
     dump_field ''semester'' PStr (cu_semester u) @
     dump_field ''location'' PStr (cu_location u)"

section \<open>Assignment models (models/assignment.py)\<close>

record AssignmentBase =
  as_title :: string
  as_description :: "string option"
  assignment_type :: string
  course_id :: uuid
  assigned_date :: date
  due_date :: date
  max_points :: "int option"


record AssignmentUpdate =
  asu_title :: "string field"
  asu_description :: "string field"
  asu_assignment_type :: "string field"
  asu_course_id :: "uuid field"
  asu_assigned_date :: "date field"
  asu_due_date :: "date field"
  asu_max_points :: "int field"

record AssignmentRead = AssignmentBase +
  as_id :: uuid
  as_created_at :: datetime
  as_updated_at :: datetime

definition AssignmentBase_model_dump :: "'a AssignmentBase_scheme \<Rightarrow> pydict" where
  "AssignmentBase_model_dump a =
     [(''title'', PStr (as_title a)),
      (''description'', opt PStr (as_description a)),
      (''assignment_type'', PStr (assignment_type a)),
      (''course_id'', PUUID (course_id a)),
      (''assigned_date'', PDate (assigned_date a)),
      (''due_date'', PDate (due_date a)),
      (''max_points'', opt PInt (max_points a))]"

definition AssignmentRead_model_dump :: "AssignmentRead \<Rightarrow> pydict" where
  "AssignmentRead_model_dump a =
     AssignmentBase_model_dump a @
     [(''id'', PUUID (as_id a)),
      (''created_at'', PDatetime (as_created_at a)),
      (''updated_at'', PDatetime (as_updated_at a))]"

definition AssignmentUpdate_model_dump_exclude_unset :: "AssignmentUpdate \<Rightarrow> pydict" where
  "AssignmentUpdate_model_dump_exclude_unset u =
     dump_field ''title'' PStr (asu_title u) @
     dump_field ''description'' PStr (asu_description u) @
     dump_field ''assignment_type'' PStr (asu_assignment_type u) @
     dump_field ''course_id'' PUUID (asu_course_id u) @
     dump_field ''assigned_date'' PDate (asu_assigned_date u) @
     dump_field ''due_date'' PDate (asu_due_date u) @
     dump_field ''max_points'' PInt (asu_max_points u)"

section \<open>Address models\<close>

text \<open>
  Modelled from the spec: \<open>models/address.py\<close> (the classes \<open>AddressCreate\<close>,
  \<open>AddressUpdate\<close> and \<open>AddressRead\<close>) is not among the sources. The fields are the
  ones \<open>main.py\<close> reads: the creation payload carries a caller-supplied identifier
  (\<open>address.id\<close>), the record adds \<open>created_at\<close> and \<open>updated_at\<close> with the clock as
  default, as every record of the spec has them, and the update payload offers the five
  filterable fields. \<open>state\<close> and \<open>postal_code\<close> may be \<open>None\<close>.
\<close>

record AddressBase =
  ad_id :: uuid
  street :: string
  city :: string
  state :: "string option"
  postal_code :: "string option"
  country :: string

type_synonym AddressCreate = AddressBase

record AddressUpdate =
  adu_street :: "string field"
  adu_city :: "string field"
  adu_state :: "string field"
  adu_postal_code :: "string field"
  adu_country :: "string field"

record AddressRead = AddressBase +
  ad_created_at :: datetime
  ad_updated_at :: datetime

definition AddressBase_model_dump :: "'a AddressBase_scheme \<Rightarrow> pydict" where
  "AddressBase_model_dump a =
     [(''id'', PUUID (ad_id a)),
      (''street'', PStr (street a)),
      (''city'', PStr (city a)),
      (''state'', opt PStr (state a)),
      (''postal_code'', opt PStr (postal_code a)),
      (''country'', PStr (country a))]"

definition AddressRead_model_dump :: "AddressRead \<Rightarrow> pydict" where
  "AddressRead_model_dump a =
     AddressBase_model_dump a @
     [(''created_at'', PDatetime (ad_created_at a)),
      (''updated_at'', PDatetime (ad_updated_at a))]"

definition AddressUpdate_model_dump_exclude_unset :: "AddressUpdate \<Rightarrow> pydict" where
  "AddressUpdate_model_dump_exclude_unset u =
     dump_field ''street'' PStr (adu_street u) @
     dump_field ''city'' PStr (adu_city u) @
     dump_field ''state'' PStr (adu_state u) @
     dump_field ''postal_code'' PStr (adu_postal_code u) @
     dump_field ''country'' PStr (adu_country u)"

section \<open>Person models\<close>

text \<open>
  Modelled from the spec: \<open>models/person.py\<close> (the classes \<open>PersonCreate\<close>,
  \<open>PersonUpdate\<close> and \<open>PersonRead\<close>) is not among the sources. The fields are the
  ones \<open>main.py\<close> reads; \<open>addresses\<close> is the embedded sequence of address-shaped
  values, each with a \<open>city\<close> and a \<open>country\<close>. The creation payload carries no
  identifier: the record's \<open>id\<close> comes from \<open>uuid4\<close>, \<open>created_at\<close> and
  \<open>updated_at\<close> from the clock. \<open>phone\<close> and \<open>birth_date\<close> may be \<open>None\<close>.
\<close>

record PersonBase =
  uni :: string
  first_name :: string
  last_name :: string
  email :: string
  phone :: "string option"
  birth_date :: "date option"
  p_addresses :: "AddressBase list"


record PersonUpdate =
  pu_uni :: "string field"
  pu_first_name :: "string field"
  pu_last_name :: "string field"
  pu_email :: "string field"
  pu_phone :: "string field"
  pu_birth_date :: "date field"
  pu_addresses :: "AddressBase list field"

record PersonRead = PersonBase +
  p_id :: uuid
  p_created_at :: datetime
  p_updated_at :: datetime

definition dump_addresses :: "AddressBase list \<Rightarrow> pyval" where
  "dump_addresses as = PList (map (\<lambda>a. PDict (AddressBase_model_dump a)) as)"

definition PersonBase_model_dump :: "'a PersonBase_scheme \<Rightarrow> pydict" where
  "PersonBase_model_dump p =
     [(''uni'', PStr (uni p)),
      (''first_name'', PStr (first_name p)),
      (''last_name'', PStr (last_name p)),
      (''email'', PStr (email p)),
      (''phone'', opt PStr (phone p)),
      (''birth_date'', opt PDate (birth_date p)),
      (''addresses'', dump_addresses (p_addresses p))]"

definition PersonRead_model_dump :: "PersonRead \<Rightarrow> pydict" where
  "PersonRead_model_dump p =
     PersonBase_model_dump p @
     [(''id'', PUUID (p_id p)),
      (''created_at'', PDatetime (p_created_at p)),
      (''updated_at'', PDatetime (p_updated_at p))]"

definition PersonUpdate_model_dump_exclude_unset :: "PersonUpdate \<Rightarrow> pydict" where
  "PersonUpdate_model_dump_exclude_unset u =
     dump_field ''uni'' PStr (pu_uni u) @
     dump_field ''first_name'' PStr (pu_first_name u) @
     dump_field ''last_name'' PStr (pu_last_name u) @
     dump_field ''email'' PStr (pu_email u) @
     dump_field ''phone'' PStr (pu_phone u) @
     dump_field ''birth_date'' PDate (pu_birth_date u) @
     dump_field ''addresses'' dump_addresses (pu_addresses u)"

section \<open>The application state (main.py)\<close>

text \<open>
  The module-level dictionaries, and the two things the default factories read from
  outside the program: the sequence of values \<open>uuid4()\<close> will return and the sequence
  of values \<open>datetime.utcnow()\<close> will return.
\<close>

record app_state =
  persons :: "(uuid, PersonRead) dict"
  addresses :: "(uuid, AddressRead) dict"
  courses :: "(uuid, CourseRead) dict"
  assignments :: "(uuid, AssignmentRead) dict"
  uuid4_results :: "nat \<Rightarrow> uuid"
  utcnow_results :: "nat \<Rightarrow> datetime"

definition uuid4 :: "app_state \<Rightarrow> uuid \<times> app_state" where
  "uuid4 s = (uuid4_results s 0, s\<lparr>uuid4_results := \<lambda>n. uuid4_results s (Suc n)\<rparr>)"

definition utcnow :: "app_state \<Rightarrow> datetime \<times> app_state" where
  "utcnow s = (utcnow_results s 0, s\<lparr>utcnow_results := \<lambda>n. utcnow_results s (Suc n)\<rparr>)"

definition default_factory ::
  "pydict \<Rightarrow> string \<Rightarrow> (pyval \<Rightarrow> 'a option) \<Rightarrow> (app_state \<Rightarrow> 'a \<times> app_state) \<Rightarrow> app_state \<Rightarrow> 'a option \<times> app_state" where
  \<comment> \<open>a field declared \<open>T = Field(default_factory=f)\<close>: \<open>f\<close> is called only when the key is missing\<close>
  "default_factory kw k conv f s =
     (case dict_get kw k of
        None \<Rightarrow> (let (v, s') = f s in (Some v, s'))
      | Some v \<Rightarrow> (conv v, s))"

definition CourseRead_init :: "pydict \<Rightarrow> app_state \<Rightarrow> (error + CourseRead) \<times> app_state" where
  \<comment> \<open>\<open>CourseRead(**kw)\<close>: the fields in declaration order, the inherited ones first\<close>
  "CourseRead_init kw s =
     (let (v_id, s1) = default_factory kw ''id'' as_uuid uuid4 s;
          (v_created_at, s2) = default_factory kw ''created_at'' as_datetime utcnow s1;
          (v_updated_at, s3) = default_factory kw ''updated_at'' as_datetime utcnow s2
      in (case do {
             cc \<leftarrow> required kw ''course_code'' as_str;
             ti \<leftarrow> required kw ''title'' as_str;
             de \<leftarrow> required kw ''description'' as_str;
             cr \<leftarrow> required kw ''credits'' as_int;
             ins \<leftarrow> required kw ''instructor'' as_str;
             sch \<leftarrow> required kw ''schedule'' as_str;
             sem \<leftarrow> optional kw ''semester'' as_str;
             loc \<leftarrow> optional kw ''location'' as_str;
             i \<leftarrow> v_id;
             ca \<leftarrow> v_created_at;
             ua \<leftarrow> v_updated_at;
             Some \<lparr>course_code = cc, c_title = ti, c_description = de, credits = cr,
                   instructor = ins, schedule = sch, semester = sem, location = loc,
                   c_id = i, c_created_at = ca, c_updated_at = ua\<rparr>
           } of
             None \<Rightarrow> Inl ValidationError
           | Some r \<Rightarrow> Inr r, s3))"

definition AssignmentRead_init :: "pydict \<Rightarrow> app_state \<Rightarrow> (error + AssignmentRead) \<times> app_state" where
  \<comment> \<open>\<open>AssignmentRead(**kw)\<close>\<close>
  "AssignmentRead_init kw s =
     (let (v_id, s1) = default_factory kw ''id'' as_uuid uuid4 s;
          (v_created_at, s2) = default_factory kw ''created_at'' as_datetime utcnow s1;
          (v_updated_at, s3) = default_factory kw ''updated_at'' as_datetime utcnow s2
      in (case do {
             ti \<leftarrow> required kw ''title'' as_str;
             de \<leftarrow> optional kw ''description'' as_str;
             ty \<leftarrow> required kw ''assignment_type'' as_str;
             co \<leftarrow> required kw ''course_id'' as_uuid;
             ad \<leftarrow> required kw ''assigned_date'' as_date;
             du \<leftarrow> required kw ''due_date'' as_date;
             mp \<leftarrow> optional kw ''max_points'' as_int;
             i \<leftarrow> v_id;
             ca \<leftarrow> v_created_at;
             ua \<leftarrow> v_updated_at;
             Some \<lparr>as_title = ti, as_description = de, assignment_type = ty, course_id = co,
                   assigned_date = ad, due_date = du, max_points = mp,
                   as_id = i, as_created_at = ca, as_updated_at = ua\<rparr>
           } of
             None \<Rightarrow> Inl ValidationError
           | Some r \<Rightarrow> Inr r, s3))"

definition AddressBase_init :: "pydict \<Rightarrow> app_state \<Rightarrow> AddressBase option \<times> app_state" where
  \<comment> \<open>an address-shaped value inside a person; \<open>None\<close> is the invalid value\<close>
  "AddressBase_init kw s =
     (let (v_id, s1) = default_factory kw ''id'' as_uuid uuid4 s
      in (do {
            i \<leftarrow> v_id;
            st \<leftarrow> required kw ''street'' as_str;
            ci \<leftarrow> required kw ''city'' as_str;
            sa \<leftarrow> optional kw ''state'' as_str;
            pc \<leftarrow> optional kw ''postal_code'' as_str;
            co \<leftarrow> required kw ''country'' as_str;
            Some \<lparr>ad_id = i, street = st, city = ci, state = sa, postal_code = pc,
                  country = co\<rparr>
          }, s1))"

definition AddressRead_init :: "pydict \<Rightarrow> app_state \<Rightarrow> (error + AddressRead) \<times> app_state" where
  \<comment> \<open>\<open>AddressRead(**kw)\<close>\<close>
  "AddressRead_init kw s =
     (let (v_id, s1) = default_factory kw ''id'' as_uuid uuid4 s;
          (v_created_at, s2) = default_factory kw ''created_at'' as_datetime utcnow s1;
          (v_updated_at, s3) = default_factory kw ''updated_at'' as_datetime utcnow s2
      in (case do {
             i \<leftarrow> v_id;
             st \<leftarrow> required kw ''street'' as_str;
             ci \<leftarrow> required kw ''city'' as_str;
             sa \<leftarrow> optional kw ''state'' as_str;
             pc \<leftarrow> optional kw ''postal_code'' as_str;
             co \<leftarrow> required kw ''country'' as_str;
             ca \<leftarrow> v_created_at;
             ua \<leftarrow> v_updated_at;
             Some \<lparr>ad_id = i, street = st, city = ci, state = sa, postal_code = pc,
                   country = co, ad_created_at = ca, ad_updated_at = ua\<rparr>
           } of
             None \<Rightarrow> Inl ValidationError
           | Some r \<Rightarrow> Inr r, s3))"

fun as_addresses :: "pyval list \<Rightarrow> app_state \<Rightarrow> AddressBase list option \<times> app_state" where
  "as_addresses [] s = (Some [], s)"
| "as_addresses (v # vs) s =
     (let (a, s1) = (case v of PDict kw \<Rightarrow> AddressBase_init kw s | _ \<Rightarrow> (None, s));
          (as, s2) = as_addresses vs s1
      in (do { x \<leftarrow> a; xs \<leftarrow> as; Some (x # xs) }, s2))"

definition PersonRead_init :: "pydict \<Rightarrow> app_state \<Rightarrow> (error + PersonRead) \<times> app_state" where
  \<comment> \<open>\<open>PersonRead(**kw)\<close>\<close>
  "PersonRead_init kw s =
     (let (v_addresses, s0) =
            (case dict_get kw ''addresses'' of
               None \<Rightarrow> (Some [], s)
             | Some (PList vs) \<Rightarrow> as_addresses vs s
             | Some _ \<Rightarrow> (None, s));
          (v_id, s1) = default_factory kw ''id'' as_uuid uuid4 s0;
          (v_created_at, s2) = default_factory kw ''created_at'' as_datetime utcnow s1;
          (v_updated_at, s3) = default_factory kw ''updated_at'' as_datetime utcnow s2
      in (case do {
             un \<leftarrow> required kw ''uni'' as_str;
             fn \<leftarrow> required kw ''first_name'' as_str;
             ln \<leftarrow> required kw ''last_name'' as_str;
             em \<leftarrow> required kw ''email'' as_str;
             ph \<leftarrow> optional kw ''phone'' as_str;
             bd \<leftarrow> optional kw ''birth_date'' as_date;
             ads \<leftarrow> v_addresses;
             i \<leftarrow> v_id;
             ca \<leftarrow> v_created_at;
             ua \<leftarrow> v_updated_at;
             Some \<lparr>uni = un, first_name = fn, last_name = ln, email = em, phone = ph,
                   birth_date = bd, p_addresses = ads,
                   p_id = i, p_created_at = ca, p_updated_at = ua\<rparr>
           } of
             None \<Rightarrow> Inl ValidationError
           | Some r \<Rightarrow> Inr r, s3))"

text \<open>
  One query filter of a list endpoint: \<open>if q is not None: results = [x for x in results
  if p(x, q)]\<close>.
\<close>

definition query_filter :: "'q option \<Rightarrow> ('a \<Rightarrow> 'q \<Rightarrow> bool) \<Rightarrow> 'a list \<Rightarrow> 'a list" where
  "query_filter q p results = (case q of None \<Rightarrow> results | Some v \<Rightarrow> filter (\<lambda>x. p x v) results)"

definition str_opt_date :: "date option \<Rightarrow> string" where
  \<comment> \<open>\<open>str(d)\<close> for an \<open>Optional[date]\<close>\<close>
  "str_opt_date d = (case d of None \<Rightarrow> ''None'' | Some x \<Rightarrow> str_date x)"

section \<open>Address endpoints\<close>

definition create_address :: "AddressCreate \<Rightarrow> app_state \<Rightarrow> (error + AddressRead) \<times> app_state" where
  "create_address address s =
     (if dict_contains (ad_id address) (addresses s)
      then (Inl (HTTPException 400 ''Address with this ID already exists''), s)
      else case AddressRead_init (AddressBase_model_dump address) s of
             (Inl e, s') \<Rightarrow> (Inl e, s')
           | (Inr r, s') \<Rightarrow>
               (let s'' = s'\<lparr>addresses := dict_set (ad_id address) r (addresses s')\<rparr>
                in (dict_getitem (addresses s'') (ad_id address), s'')))"

definition list_addresses ::
  "string option \<Rightarrow> string option \<Rightarrow> string option \<Rightarrow> string option \<Rightarrow> string option \<Rightarrow>
   app_state \<Rightarrow> (error + AddressRead list) \<times> app_state" where
  "list_addresses q_street q_city q_state q_postal_code q_country s =
     (let results = dict_values (addresses s);
          results = query_filter q_street (\<lambda>a v. street a = v) results;
          results = query_filter q_city (\<lambda>a v. city a = v) results;
          results = query_filter q_state (\<lambda>a v. state a = Some v) results;
          results = query_filter q_postal_code (\<lambda>a v. postal_code a = Some v) results;
          results = query_filter q_country (\<lambda>a v. country a = v) results
      in (Inr results, s))"

definition get_address :: "uuid \<Rightarrow> app_state \<Rightarrow> (error + AddressRead) \<times> app_state" where
  "get_address address_id s =
     (if \<not> dict_contains address_id (addresses s)
      then (Inl (HTTPException 404 ''Address not found''), s)
      else (dict_getitem (addresses s) address_id, s))"

definition update_address :: "uuid \<Rightarrow> AddressUpdate \<Rightarrow> app_state \<Rightarrow> (error + AddressRead) \<times> app_state" where
  "update_address address_id update s =
     (if \<not> dict_contains address_id (addresses s)
      then (Inl (HTTPException 404 ''Address not found''), s)
      else case dict_getitem (addresses s) address_id of
             Inl e \<Rightarrow> (Inl e, s)
           | Inr a \<Rightarrow>
               (let stored = AddressRead_model_dump a;
                    stored = dict_update stored (AddressUpdate_model_dump_exclude_unset update)
                in case AddressRead_init stored s of
                     (Inl e, s') \<Rightarrow> (Inl e, s')
                   | (Inr r, s') \<Rightarrow>
                       (let s'' = s'\<lparr>addresses := dict_set address_id r (addresses s')\<rparr>
                        in (dict_getitem (addresses s'') address_id, s''))))"

definition delete_address :: "uuid \<Rightarrow> app_state \<Rightarrow> (error + unit) \<times> app_state" where
  "delete_address address_id s =
     (if \<not> dict_contains address_id (addresses s)
      then (Inl (HTTPException 404 ''Address not found''), s)
      else (Inr (), s\<lparr>addresses := dict_del address_id (addresses s)\<rparr>))"

section \<open>Person endpoints\<close>


definition list_persons ::
  "string option \<Rightarrow> string option \<Rightarrow> string option \<Rightarrow> string option \<Rightarrow> string option \<Rightarrow>
   string option \<Rightarrow> string option \<Rightarrow> string option \<Rightarrow>
   app_state \<Rightarrow> (error + PersonRead list) \<times> app_state" where
  "list_persons q_uni q_first_name q_last_name q_email q_phone q_birth_date q_city q_country s =
     (let results = dict_values (persons s);
          results = query_filter q_uni (\<lambda>p v. uni p = v) results;
          results = query_filter q_first_name (\<lambda>p v. first_name p = v) results;
          results = query_filter q_last_name (\<lambda>p v. last_name p = v) results;
          results = query_filter q_email (\<lambda>p v. email p = v) results;
          results = query_filter q_phone (\<lambda>p v. phone p = Some v) results;
          results = query_filter q_birth_date (\<lambda>p v. str_opt_date (birth_date p) = v) results;
          results = query_filter q_city (\<lambda>p v. list_ex (\<lambda>addr. city addr = v) (p_addresses p)) results;
          results = query_filter q_country (\<lambda>p v. list_ex (\<lambda>addr. country addr = v) (p_addresses p)) results
      in (Inr results, s))"

definition get_person :: "uuid \<Rightarrow> app_state \<Rightarrow> (error + PersonRead) \<times> app_state" where
  "get_person person_id s =
     (if \<not> dict_contains person_id (persons s)
      then (Inl (HTTPException 404 ''Person not found''), s)
      else (dict_getitem (persons s) person_id, s))"

definition update_person :: "uuid \<Rightarrow> PersonUpdate \<Rightarrow> app_state \<Rightarrow> (error + PersonRead) \<times> app_state" where
  "update_person person_id update s =
     (if \<not> dict_contains person_id (persons s)
      then (Inl (HTTPException 404 ''Person not found''), s)
      else case dict_getitem (persons s) person_id of
             Inl e \<Rightarrow> (Inl e, s)
           | Inr p \<Rightarrow>
               (let stored = PersonRead_model_dump p;
                    stored = dict_update stored (PersonUpdate_model_dump_exclude_unset update)
                in case PersonRead_init stored s of
                     (Inl e, s') \<Rightarrow> (Inl e, s')
                   | (Inr r, s') \<Rightarrow>
                       (let s'' = s'\<lparr>persons := dict_set person_id r (persons s')\<rparr>
                        in (dict_getitem (persons s'') person_id, s''))))"

section \<open>Course endpoints\<close>

definition create_course :: "CourseCreate \<Rightarrow> app_state \<Rightarrow> (error + CourseRead) \<times> app_state" where
  "create_course course s =
     (case CourseRead_init (CourseBase_model_dump course) s of
        (Inl e, s') \<Rightarrow> (Inl e, s')
      | (Inr course_read, s') \<Rightarrow>
          (Inr course_read, s'\<lparr>courses := dict_set (c_id course_read) course_read (courses s')\<rparr>))"

definition list_courses ::
  "string option \<Rightarrow> string option \<Rightarrow> string option \<Rightarrow> int option \<Rightarrow> string option \<Rightarrow>
   app_state \<Rightarrow> (error + CourseRead list) \<times> app_state" where
  "list_courses q_course_code q_title q_instructor q_credits q_semester s =
     (let results = dict_values (courses s);
          results = query_filter q_course_code (\<lambda>c v. course_code c = v) results;
          results = query_filter q_title (\<lambda>c v. c_title c = v) results;
          results = query_filter q_instructor (\<lambda>c v. instructor c = v) results;
          results = query_filter q_credits (\<lambda>c v. credits c = v) results;
          results = query_filter q_semester (\<lambda>c v. semester c = Some v) results
      in (Inr results, s))"

definition get_course :: "uuid \<Rightarrow> app_state \<Rightarrow> (error + CourseRead) \<times> app_state" where
  "get_course course_id' s =
     (if \<not> dict_contains course_id' (courses s)
      then (Inl (HTTPException 404 ''Course not found''), s)
      else (dict_getitem (courses s) course_id', s))"

definition update_course :: "uuid \<Rightarrow> CourseUpdate \<Rightarrow> app_state \<Rightarrow> (error + CourseRead) \<times> app_state" where
  "update_course course_id' update s =
     (if \<not> dict_contains course_id' (courses s)
      then (Inl (HTTPException 404 ''Course not found''), s)
      else case dict_getitem (courses s) course_id' of
             Inl e \<Rightarrow> (Inl e, s)
           | Inr c \<Rightarrow>
               (let stored = CourseRead_model_dump c;
                    stored = dict_update stored (CourseUpdate_model_dump_exclude_unset update)
                in case CourseRead_init stored s of
                     (Inl e, s') \<Rightarrow> (Inl e, s')
                   | (Inr r, s') \<Rightarrow>
                       (let s'' = s'\<lparr>courses := dict_set course_id' r (courses s')\<rparr>
                        in (dict_getitem (courses s'') course_id', s''))))"

definition delete_course :: "uuid \<Rightarrow> app_state \<Rightarrow> (error + unit) \<times> app_state" where
  "delete_course course_id' s =
     (if \<not> dict_contains course_id' (courses s)
      then (Inl (HTTPException 404 ''Course not found''), s)
      else (Inr (), s\<lparr>courses := dict_del course_id' (courses s)\<rparr>))"

section \<open>Assignment endpoints\<close>


definition list_assignments ::
  "string option \<Rightarrow> string option \<Rightarrow> uuid option \<Rightarrow> string option \<Rightarrow> string option \<Rightarrow>
   app_state \<Rightarrow> (error + AssignmentRead list) \<times> app_state" where
  "list_assignments q_title q_assignment_type q_course_id q_due_date q_assigned_date s =
     (let results = dict_values (assignments s);
          results = query_filter q_title (\<lambda>a v. as_title a = v) results;
          results = query_filter q_assignment_type (\<lambda>a v. assignment_type a = v) results;
          results = query_filter q_course_id (\<lambda>a v. course_id a = v) results;
          results = query_filter q_due_date (\<lambda>a v. str_date (due_date a) = v) results;
          results = query_filter q_assigned_date (\<lambda>a v. str_date (assigned_date a) = v) results
      in (Inr results, s))"

definition get_assignment :: "uuid \<Rightarrow> app_state \<Rightarrow> (error + AssignmentRead) \<times> app_state" where
  "get_assignment assignment_id s =
     (if \<not> dict_contains assignment_id (assignments s)
      then (Inl (HTTPException 404 ''Assignment not found''), s)
      else (dict_getitem (assignments s) assignment_id, s))"

definition update_assignment ::
  "uuid \<Rightarrow> AssignmentUpdate \<Rightarrow> app_state \<Rightarrow> (error + AssignmentRead) \<times> app_state" where
  "update_assignment assignment_id update s =
     (if \<not> dict_contains assignment_id (assignments s)
      then (Inl (HTTPException 404 ''Assignment not found''), s)
      else case dict_getitem (assignments s) assignment_id of
             Inl e \<Rightarrow> (Inl e, s)
           | Inr a \<Rightarrow>
               (let stored = AssignmentRead_model_dump a;
                    stored = dict_update stored (AssignmentUpdate_model_dump_exclude_unset update)
                in case AssignmentRead_init stored s of
                     (Inl e, s') \<Rightarrow> (Inl e, s')
                   | (Inr r, s') \<Rightarrow>
                       (let s'' = s'\<lparr>assignments := dict_set assignment_id r (assignments s')\<rparr>
                        in (dict_getitem (assignments s'') assignment_id, s''))))"

section \<open>The merge of an update, field by field\<close>

text \<open>
  What \<open>stored.update(update.model_dump(exclude_unset=True))\<close> followed by the read
  model's constructor computes, written on the records: an unset field keeps the stored
  value, a supplied one replaces it, and \<open>null\<close> for a field that is not
  \<open>Optional\<close> in the read model has no valid result. The lemmas below prove that the
  handlers compute exactly this.
\<close>

definition patch_required :: "'a field \<Rightarrow> 'a \<Rightarrow> 'a option" where
  "patch_required f old = (case f of Unset \<Rightarrow> Some old | Supplied v \<Rightarrow> v)"

definition patch_optional :: "'a field \<Rightarrow> 'a option \<Rightarrow> 'a option" where
  "patch_optional f old = (case f of Unset \<Rightarrow> old | Supplied v \<Rightarrow> v)"

definition CourseRead_patch :: "CourseRead \<Rightarrow> CourseUpdate \<Rightarrow> CourseRead option" where
  "CourseRead_patch c u =
     do {
       cc \<leftarrow> patch_required (cu_course_code u) (course_code c);
       ti \<leftarrow> patch_required (cu_title u) (c_title c);
       de \<leftarrow> patch_required (cu_description u) (c_description c);
       cr \<leftarrow> patch_required (cu_credits u) (credits c);
       ins \<leftarrow> patch_required (cu_instructor u) (instructor c);
       sch \<leftarrow> patch_required (cu_schedule u) (schedule c);
       Some \<lparr>course_code = cc, c_title = ti, c_description = de, credits = cr,
             instructor = ins, schedule = sch,
             semester = patch_optional (cu_semester u) (semester c),
             location = patch_optional (cu_location u) (location c),
             c_id = c_id c, c_created_at = c_created_at c, c_updated_at = c_updated_at c\<rparr>
     }"

definition AssignmentRead_patch :: "AssignmentRead \<Rightarrow> AssignmentUpdate \<Rightarrow> AssignmentRead option" where
  "AssignmentRead_patch a u =
     do {
       ti \<leftarrow> patch_required (asu_title u) (as_title a);
       ty \<leftarrow> patch_required (asu_assignment_type u) (assignment_type a);
       co \<leftarrow> patch_required (asu_course_id u) (course_id a);
       ad \<leftarrow> patch_required (asu_assigned_date u) (assigned_date a);
       du \<leftarrow> patch_required (asu_due_date u) (due_date a);
       Some \<lparr>as_title = ti,
             as_description = patch_optional (asu_description u) (as_description a),
             assignment_type = ty, course_id = co, assigned_date = ad, due_date = du,
             max_points = patch_optional (asu_max_points u) (max_points a),
             as_id = as_id a, as_created_at = as_created_at a,
             as_updated_at = as_updated_at a\<rparr>
     }"

definition AddressRead_patch :: "AddressRead \<Rightarrow> AddressUpdate \<Rightarrow> AddressRead option" where
  "AddressRead_patch a u =
     do {
       st \<leftarrow> patch_required (adu_street u) (street a);
       ci \<leftarrow> patch_required (adu_city u) (city a);
       co \<leftarrow> patch_required (adu_country u) (country a);
       Some \<lparr>ad_id = ad_id a, street = st, city = ci,
             state = patch_optional (adu_state u) (state a),
             postal_code = patch_optional (adu_postal_code u) (postal_code a),
             country = co,
             ad_created_at = ad_created_at a, ad_updated_at = ad_updated_at a\<rparr>
     }"

definition PersonRead_patch :: "PersonRead \<Rightarrow> PersonUpdate \<Rightarrow> PersonRead option" where
  "PersonRead_patch p u =
     do {
       un \<leftarrow> patch_required (pu_uni u) (uni p);
       fn \<leftarrow> patch_required (pu_first_name u) (first_name p);
       ln \<leftarrow> patch_required (pu_last_name u) (last_name p);
       em \<leftarrow> patch_required (pu_email u) (email p);
       ads \<leftarrow> patch_required (pu_addresses u) (p_addresses p);
       Some \<lparr>uni = un, first_name = fn, last_name = ln, email = em,
             phone = patch_optional (pu_phone u) (phone p),
             birth_date = patch_optional (pu_birth_date u) (birth_date p),
             p_addresses = ads,
             p_id = p_id p, p_created_at = p_created_at p, p_updated_at = p_updated_at p\<rparr>
     }"

text \<open>
  The property of one field after an update: a field that was not supplied has its
  prior value, a supplied field has the supplied value. Values are compared as
  \<open>Optional\<close> values, so a required field is wrapped in \<open>Some\<close>.
\<close>

definition overwrites :: "'a field \<Rightarrow> 'a option \<Rightarrow> 'a option \<Rightarrow> bool" where
  "overwrites f old new = (case f of Unset \<Rightarrow> new = old | Supplied v \<Rightarrow> new = v)"

definition course_fields_merged :: "CourseRead \<Rightarrow> CourseUpdate \<Rightarrow> CourseRead \<Rightarrow> bool" where
  "course_fields_merged c u r =
     (overwrites (cu_course_code u) (Some (course_code c)) (Some (course_code r)) \<and>
      overwrites (cu_title u) (Some (c_title c)) (Some (c_title r)) \<and>
      overwrites (cu_description u) (Some (c_description c)) (Some (c_description r)) \<and>
      overwrites (cu_credits u) (Some (credits c)) (Some (credits r)) \<and>
      overwrites (cu_instructor u) (Some (instructor c)) (Some (instructor r)) \<and>
      overwrites (cu_schedule u) (Some (schedule c)) (Some (schedule r)) \<and>
      overwrites (cu_semester u) (semester c) (semester r) \<and>
      overwrites (cu_location u) (location c) (location r))"

definition assignment_fields_merged ::
  "AssignmentRead \<Rightarrow> AssignmentUpdate \<Rightarrow> AssignmentRead \<Rightarrow> bool" where
  "assignment_fields_merged a u r =
     (overwrites (asu_title u) (Some (as_title a)) (Some (as_title r)) \<and>
      overwrites (asu_description u) (as_description a) (as_description r) \<and>
      overwrites (asu_assignment_type u) (Some (assignment_type a)) (Some (assignment_type r)) \<and>
      overwrites (asu_course_id u) (Some (course_id a)) (Some (course_id r)) \<and>
      overwrites (asu_assigned_date u) (Some (assigned_date a)) (Some (assigned_date r)) \<and>
      overwrites (asu_due_date u) (Some (due_date a)) (Some (due_date r)) \<and>
      overwrites (asu_max_points u) (max_points a) (max_points r))"

text \<open>An update payload that supplies no \<open>null\<close> for a field the read model requires.\<close>

definition not_null :: "'a field \<Rightarrow> bool" where
  "not_null f = (f \<noteq> Supplied None)"

definition course_update_valid :: "CourseUpdate \<Rightarrow> bool" where
  "course_update_valid u =
     (not_null (cu_course_code u) \<and> not_null (cu_title u) \<and> not_null (cu_description u) \<and>
      not_null (cu_credits u) \<and> not_null (cu_instructor u) \<and> not_null (cu_schedule u))"

definition assignment_update_valid :: "AssignmentUpdate \<Rightarrow> bool" where
  "assignment_update_valid u =
     (not_null (asu_title u) \<and> not_null (asu_assignment_type u) \<and> not_null (asu_course_id u) \<and>
      not_null (asu_assigned_date u) \<and> not_null (asu_due_date u))"

section \<open>Example inputs\<close>

text \<open>The course of the spec's example scenario, as a creation payload and as a stored record.\<close>

definition cloud_computing :: CourseCreate where
  "cloud_computing =
     \<lparr>course_code = ''COMS W4153'', c_title = ''Cloud Computing'', c_description = ''Intro'',
      credits = 3, instructor = ''Ferguson'', schedule = ''MWF 10:00-11:15'',
      semester = None, location = None\<rparr>"

definition stored_course :: CourseRead where
  "stored_course =
     \<lparr>course_code = ''COMS W4153'', c_title = ''Cloud Computing'', c_description = ''Intro'',
      credits = 3, instructor = ''Ferguson'', schedule = ''MWF 10:00-11:15'',
      semester = Some ''Fall 2025'', location = None,
      c_id = 7, c_created_at = 1000, c_updated_at = 1000\<rparr>"

definition stored_assignment :: AssignmentRead where
  "stored_assignment =
     \<lparr>as_title = ''Midterm Exam'', as_description = None, assignment_type = ''exam'',
      course_id = 7, assigned_date = Date 2025 10 1, due_date = Date 2025 10 15,
      max_points = Some 200, as_id = 9, as_created_at = 1500, as_updated_at = 1500\<rparr>"


definition stored_address :: AddressRead where
  "stored_address =
     \<lparr>ad_id = 3, street = ''116th St'', city = ''New York'', state = Some ''NY'',
      postal_code = None, country = ''USA'', ad_created_at = 500, ad_updated_at = 500\<rparr>"

definition home_address :: AddressBase where
  "home_address =
     \<lparr>ad_id = 4, street = ''1 Main St'', city = ''Boston'', state = None,
      postal_code = None, country = ''USA''\<rparr>"

definition stored_person :: PersonRead where
  "stored_person =
     \<lparr>uni = ''abc1234'', first_name = ''Ada'', last_name = ''Lovelace'',
      email = ''ada@example.com'', phone = None, birth_date = Some (Date 1815 12 10),
      p_addresses = [home_address],
      p_id = 5, p_created_at = 700, p_updated_at = 700\<rparr>"

text \<open>
  A state with no records, whose clock returns 1000 twice and then 2000, 2001, ... and
  whose \<open>uuid4\<close> returns 7, 8, ...; a state with one record in each store, whose
  clock advances at every read; and the same state when \<open>uuid4\<close> next returns 7, the
  identifier of the stored course.
\<close>

definition empty_state :: app_state where
  "empty_state =
     \<lparr>persons = [], addresses = [], courses = [], assignments = [],
      uuid4_results = (\<lambda>n. 7 + n),
      utcnow_results = (\<lambda>n. if n < 2 then 1000 else 1998 + int n)\<rparr>"

definition busy_state :: app_state where
  "busy_state =
     \<lparr>persons = [(5, stored_person)], addresses = [(3, stored_address)],
      courses = [(7, stored_course)], assignments = [(9, stored_assignment)],
      uuid4_results = (\<lambda>n. 20 + n),
      utcnow_results = (\<lambda>n. 2000 + int n)\<rparr>"


definition empty_update :: CourseUpdate where
  "empty_update =
     \<lparr>cu_course_code = Unset, cu_title = Unset, cu_description = Unset, cu_credits = Unset,
      cu_instructor = Unset, cu_schedule = Unset, cu_semester = Unset, cu_location = Unset\<rparr>"

definition credits_4 :: CourseUpdate where
  "credits_4 = empty_update\<lparr>cu_credits := Supplied (Some 4)\<rparr>"

definition empty_title :: CourseUpdate where
  "empty_title = empty_update\<lparr>cu_title := Supplied (Some [])\<rparr>"

definition null_title :: CourseUpdate where
  "null_title = empty_update\<lparr>cu_title := Supplied None\<rparr>"

definition empty_assignment_update :: AssignmentUpdate where
  "empty_assignment_update =
     \<lparr>asu_title = Unset, asu_description = Unset, asu_assignment_type = Unset,
      asu_course_id = Unset, asu_assigned_date = Unset, asu_due_date = Unset,
      asu_max_points = Unset\<rparr>"

definition later_due_date :: AssignmentUpdate where
  "later_due_date = empty_assignment_update\<lparr>asu_due_date := Supplied (Some (Date 2025 10 20))\<rparr>"

definition empty_address_update :: AddressUpdate where
  "empty_address_update =
     \<lparr>adu_street = Unset, adu_city = Unset, adu_state = Unset, adu_postal_code = Unset,
      adu_country = Unset\<rparr>"

text \<open>The keyword arguments the update handler passes to the read model's constructor.\<close>

definition course_kw :: "CourseRead \<Rightarrow> CourseUpdate \<Rightarrow> pydict" where
  "course_kw c u = dict_update (CourseRead_model_dump c) (CourseUpdate_model_dump_exclude_unset u)"

definition assignment_kw :: "AssignmentRead \<Rightarrow> AssignmentUpdate \<Rightarrow> pydict" where
  "assignment_kw a u =
     dict_update (AssignmentRead_model_dump a) (AssignmentUpdate_model_dump_exclude_unset u)"

definition address_kw :: "AddressRead \<Rightarrow> AddressUpdate \<Rightarrow> pydict" where
  "address_kw a u =
     dict_update (AddressRead_model_dump a) (AddressUpdate_model_dump_exclude_unset u)"

definition person_kw :: "PersonRead \<Rightarrow> PersonUpdate \<Rightarrow> pydict" where
  "person_kw p u =
     dict_update (PersonRead_model_dump p) (PersonUpdate_model_dump_exclude_unset u)"

section \<open>Dictionary lemmas\<close>

lemma map_of_dict_set: "map_of (dict_set k v d) = (map_of d)(k \<mapsto> v)"
  by (induction d) (auto simp: fun_eq_iff)

lemma dict_get_dict_set: "dict_get (dict_set k v d) k' = (if k' = k then Some v else dict_get d k')"
  by (simp add: dict_get_def map_of_dict_set)

lemma dict_getitem_dict_set: "dict_getitem (dict_set k v d) k = Inr v"
  by (simp add: dict_getitem_def dict_get_dict_set)

lemma dict_set_absent: "dict_get d k = None \<Longrightarrow> dict_set k v d = d @ [(k, v)]"
  unfolding dict_get_def
  by (induction d) (auto split: if_splits)

lemma dict_set_same: "dict_get d k = Some v \<Longrightarrow> dict_set k v d = d"
  unfolding dict_get_def
  by (induction d) (auto split: if_splits)

lemma dict_set_idem: "dict_set k v (dict_set k v d) = dict_set k v d"
  by (simp add: dict_set_same dict_get_dict_set)

lemma dict_values_dict_set_absent:
  "dict_get d k = None \<Longrightarrow> dict_values (dict_set k v d) = dict_values d @ [v]"
  by (simp add: dict_set_absent dict_values_def)

lemma length_dict_set_present:
  "dict_get d k \<noteq> None \<Longrightarrow> length (dict_set k v d) = length d"
  unfolding dict_get_def
  by (induction d) (auto split: if_splits)

lemma dict_get_dict_del: "dict_get (dict_del k d) k' = (if k' = k then None else dict_get d k')"
  unfolding dict_get_def dict_del_def
  by (induction d) auto

lemma map_of_dict_update: "map_of (dict_update d e) = map_of d ++ map_of (rev e)"
  unfolding dict_update_def
  by (induction e arbitrary: d)
     (auto simp: map_of_dict_set fun_eq_iff map_add_def split: option.splits)

lemma rev_dump_field: "rev (dump_field k f x) = dump_field k f x"
  by (cases x) (simp_all add: dump_field_def)

lemma map_of_dump_field:
  "map_of (dump_field k f x) k' =
     (if k' = k then (case x of Unset \<Rightarrow> None | Supplied v \<Rightarrow> Some (opt f v)) else None)"
  by (cases x) (simp_all add: dump_field_def)

lemma dump_field_Unset: "dump_field k f Unset = []"
  by (simp add: dump_field_def)

lemma dict_update_Nil: "dict_update d [] = d"
  by (simp add: dict_update_def)

lemma query_filter_filter:
  "query_filter q p xs = filter (\<lambda>x. case q of None \<Rightarrow> True | Some v \<Rightarrow> p x v) xs"
  by (cases q) (simp_all add: query_filter_def)

section \<open>Course: what the constructor and the handlers compute\<close>

lemmas kw_simps = dict_get_def map_of_dict_update rev_dump_field map_of_dump_field
  map_add_def patch_required_def patch_optional_def opt_def required_def optional_def

lemmas course_kw_simps = course_kw_def CourseRead_model_dump_def CourseBase_model_dump_def
  CourseUpdate_model_dump_exclude_unset_def kw_simps

lemma kw_course_code: "required (course_kw c u) ''course_code'' as_str = patch_required (cu_course_code u) (course_code c)"
  by (simp add: course_kw_simps split: field.splits option.splits)

lemma kw_title: "required (course_kw c u) ''title'' as_str = patch_required (cu_title u) (c_title c)"
  by (simp add: course_kw_simps split: field.splits option.splits)

lemma kw_description: "required (course_kw c u) ''description'' as_str = patch_required (cu_description u) (c_description c)"
  by (simp add: course_kw_simps split: field.splits option.splits)

lemma kw_credits: "required (course_kw c u) ''credits'' as_int = patch_required (cu_credits u) (credits c)"
  by (simp add: course_kw_simps split: field.splits option.splits)

lemma kw_instructor: "required (course_kw c u) ''instructor'' as_str = patch_required (cu_instructor u) (instructor c)"
  by (simp add: course_kw_simps split: field.splits option.splits)

lemma kw_schedule: "required (course_kw c u) ''schedule'' as_str = patch_required (cu_schedule u) (schedule c)"
  by (simp add: course_kw_simps split: field.splits option.splits)

lemma kw_semester: "optional (course_kw c u) ''semester'' as_str = Some (patch_optional (cu_semester u) (semester c))"
  by (simp add: course_kw_simps split: field.splits option.splits)

lemma kw_location: "optional (course_kw c u) ''location'' as_str = Some (patch_optional (cu_location u) (location c))"
  by (simp add: course_kw_simps split: field.splits option.splits)

lemma kw_id: "dict_get (course_kw c u) ''id'' = Some (PUUID (c_id c))"
  by (simp add: course_kw_simps)

lemma kw_created_at: "dict_get (course_kw c u) ''created_at'' = Some (PDatetime (c_created_at c))"
  by (simp add: course_kw_simps)

lemma kw_updated_at: "dict_get (course_kw c u) ''updated_at'' = Some (PDatetime (c_updated_at c))"
  by (simp add: course_kw_simps)

lemma CourseRead_init_course_kw:
  "CourseRead_init (course_kw c u) s =
     (case CourseRead_patch c u of None \<Rightarrow> Inl ValidationError | Some r \<Rightarrow> Inr r, s)"
  by (simp add: CourseRead_init_def default_factory_def kw_id kw_created_at kw_updated_at
      kw_course_code kw_title kw_description kw_credits kw_instructor kw_schedule kw_semester
      kw_location CourseRead_patch_def)

lemma update_course_eq:
  "update_course cid u s =
     (case dict_get (courses s) cid of
        None \<Rightarrow> (Inl (HTTPException 404 ''Course not found''), s)
      | Some c \<Rightarrow>
          (case CourseRead_patch c u of
             None \<Rightarrow> (Inl ValidationError, s)
           | Some r \<Rightarrow> (Inr r, s\<lparr>courses := dict_set cid r (courses s)\<rparr>)))"
  by (simp add: update_course_def dict_contains_def dict_getitem_def dict_get_dict_set
      CourseRead_init_course_kw [unfolded course_kw_def] dict_get_def [symmetric]
      split: option.splits)

lemma CourseRead_init_create:
  "CourseRead_init (CourseBase_model_dump c) s =
     (Inr \<lparr>course_code = course_code c, c_title = c_title c, c_description = c_description c,
           credits = credits c, instructor = instructor c, schedule = schedule c,
           semester = semester c, location = location c,
           c_id = uuid4_results s 0, c_created_at = utcnow_results s 0,
           c_updated_at = utcnow_results s 1\<rparr>,
      s\<lparr>uuid4_results := \<lambda>n. uuid4_results s (Suc n),
        utcnow_results := \<lambda>n. utcnow_results s (Suc (Suc n))\<rparr>)"
  by (simp add: CourseRead_init_def default_factory_def CourseBase_model_dump_def dict_get_def
      uuid4_def utcnow_def required_def optional_def opt_def split: option.splits)

lemma create_course_eq:
  "create_course c s =
     (let r = \<lparr>course_code = course_code c, c_title = c_title c, c_description = c_description c,
           credits = credits c, instructor = instructor c, schedule = schedule c,
           semester = semester c, location = location c,
           c_id = uuid4_results s 0, c_created_at = utcnow_results s 0,
           c_updated_at = utcnow_results s 1\<rparr>
      in (Inr r,
          s\<lparr>courses := dict_set (uuid4_results s 0) r (courses s),
            uuid4_results := \<lambda>n. uuid4_results s (Suc n),
            utcnow_results := \<lambda>n. utcnow_results s (Suc (Suc n))\<rparr>))"
  by (simp add: create_course_def CourseRead_init_create Let_def)

lemma get_course_eq:
  "get_course cid s =
     (case dict_get (courses s) cid of
        None \<Rightarrow> (Inl (HTTPException 404 ''Course not found''), s)
      | Some c \<Rightarrow> (Inr c, s))"
  by (simp add: get_course_def dict_contains_def dict_getitem_def dict_get_def split: option.splits)

lemma patch_required_overwrites:
  "patch_required f old = Some v \<Longrightarrow> overwrites f (Some old) (Some v)"
  by (cases f) (auto simp: patch_required_def overwrites_def)

lemma patch_optional_overwrites: "overwrites f old (patch_optional f old)"
  by (cases f) (auto simp: patch_optional_def overwrites_def)

lemma patch_required_not_null: "not_null f \<Longrightarrow> \<exists>v. patch_required f old = Some v"
  by (cases f) (auto simp: patch_required_def not_null_def)

lemma patch_required_idem: "patch_required f old = Some v \<Longrightarrow> patch_required f v = Some v"
  by (cases f) (auto simp: patch_required_def)

lemma patch_optional_idem: "patch_optional f (patch_optional f old) = patch_optional f old"
  by (cases f) (auto simp: patch_optional_def)

lemma patch_required_Unset: "patch_required Unset old = Some old"
  by (simp add: patch_required_def)

lemma patch_optional_Unset: "patch_optional Unset old = old"
  by (simp add: patch_optional_def)

lemma CourseRead_patch_Some:
  "CourseRead_patch c u = Some r \<longleftrightarrow>
     (\<exists>cc ti de cr ins sch.
        patch_required (cu_course_code u) (course_code c) = Some cc \<and>
        patch_required (cu_title u) (c_title c) = Some ti \<and>
        patch_required (cu_description u) (c_description c) = Some de \<and>
        patch_required (cu_credits u) (credits c) = Some cr \<and>
        patch_required (cu_instructor u) (instructor c) = Some ins \<and>
        patch_required (cu_schedule u) (schedule c) = Some sch \<and>
        r = \<lparr>course_code = cc, c_title = ti, c_description = de, credits = cr,
             instructor = ins, schedule = sch,
             semester = patch_optional (cu_semester u) (semester c),
             location = patch_optional (cu_location u) (location c),
             c_id = c_id c, c_created_at = c_created_at c, c_updated_at = c_updated_at c\<rparr>)"
  unfolding CourseRead_patch_def bind_eq_Some_conv by blast

lemma CourseRead_patch_fields:
  assumes "CourseRead_patch c u = Some r"
  shows "course_fields_merged c u r" and "c_id r = c_id c"
    and "c_created_at r = c_created_at c" and "c_updated_at r = c_updated_at c"
proof -
  from assms obtain cc ti de cr ins sch where
    p: "patch_required (cu_course_code u) (course_code c) = Some cc"
       "patch_required (cu_title u) (c_title c) = Some ti"
       "patch_required (cu_description u) (c_description c) = Some de"
       "patch_required (cu_credits u) (credits c) = Some cr"
       "patch_required (cu_instructor u) (instructor c) = Some ins"
       "patch_required (cu_schedule u) (schedule c) = Some sch"
    and r: "r = \<lparr>course_code = cc, c_title = ti, c_description = de, credits = cr,
             instructor = ins, schedule = sch,
             semester = patch_optional (cu_semester u) (semester c),
             location = patch_optional (cu_location u) (location c),
             c_id = c_id c, c_created_at = c_created_at c, c_updated_at = c_updated_at c\<rparr>"
    unfolding CourseRead_patch_Some by blast
  show "course_fields_merged c u r"
    unfolding course_fields_merged_def
    by (simp add: r p [THEN patch_required_overwrites] patch_optional_overwrites)
  show "c_id r = c_id c" "c_created_at r = c_created_at c" "c_updated_at r = c_updated_at c"
    by (simp_all add: r)
qed

lemma CourseRead_patch_valid:
  assumes "course_update_valid u"
  shows "CourseRead_patch c u \<noteq> None"
proof -
  from assms have n: "not_null (cu_course_code u)" "not_null (cu_title u)"
    "not_null (cu_description u)" "not_null (cu_credits u)" "not_null (cu_instructor u)"
    "not_null (cu_schedule u)"
    by (simp_all add: course_update_valid_def)
  from patch_required_not_null [OF n(1), of "course_code c"]
  obtain cc where 1: "patch_required (cu_course_code u) (course_code c) = Some cc"
    by (elim exE)
  from patch_required_not_null [OF n(2), of "c_title c"]
  obtain ti where 2: "patch_required (cu_title u) (c_title c) = Some ti"
    by (elim exE)
  from patch_required_not_null [OF n(3), of "c_description c"]
  obtain de where 3: "patch_required (cu_description u) (c_description c) = Some de"
    by (elim exE)
  from patch_required_not_null [OF n(4), of "credits c"]
  obtain cr where 4: "patch_required (cu_credits u) (credits c) = Some cr"
    by (elim exE)
  from patch_required_not_null [OF n(5), of "instructor c"]
  obtain ins where 5: "patch_required (cu_instructor u) (instructor c) = Some ins"
    by (elim exE)
  from patch_required_not_null [OF n(6), of "schedule c"]
  obtain sch where 6: "patch_required (cu_schedule u) (schedule c) = Some sch"
    by (elim exE)
  show ?thesis
    by (simp add: CourseRead_patch_def 1 2 3 4 5 6)
qed

lemma CourseRead_patch_idem:
  assumes "CourseRead_patch c u = Some r"
  shows "CourseRead_patch r u = Some r"
proof -
  from assms obtain cc ti de cr ins sch where
    p: "patch_required (cu_course_code u) (course_code c) = Some cc"
       "patch_required (cu_title u) (c_title c) = Some ti"
       "patch_required (cu_description u) (c_description c) = Some de"
       "patch_required (cu_credits u) (credits c) = Some cr"
       "patch_required (cu_instructor u) (instructor c) = Some ins"
       "patch_required (cu_schedule u) (schedule c) = Some sch"
    and r: "r = \<lparr>course_code = cc, c_title = ti, c_description = de, credits = cr,
             instructor = ins, schedule = sch,
             semester = patch_optional (cu_semester u) (semester c),
             location = patch_optional (cu_location u) (location c),
             c_id = c_id c, c_created_at = c_created_at c, c_updated_at = c_updated_at c\<rparr>"
    unfolding CourseRead_patch_Some by blast
  show ?thesis
    by (simp add: CourseRead_patch_def r p [THEN patch_required_idem] patch_optional_idem)
qed

lemma CourseRead_patch_empty: "CourseRead_patch c empty_update = Some c"
  by (simp add: CourseRead_patch_def empty_update_def patch_required_Unset patch_optional_Unset)

section \<open>Assignment: what the constructor and the handlers compute\<close>

lemmas assignment_kw_simps = assignment_kw_def AssignmentRead_model_dump_def
  AssignmentBase_model_dump_def AssignmentUpdate_model_dump_exclude_unset_def kw_simps

lemma as_kw_title: "required (assignment_kw a u) ''title'' as_str = patch_required (asu_title u) (as_title a)"
  by (simp add: assignment_kw_simps split: field.splits option.splits)

lemma as_kw_description: "optional (assignment_kw a u) ''description'' as_str = Some (patch_optional (asu_description u) (as_description a))"
  by (simp add: assignment_kw_simps split: field.splits option.splits)

lemma as_kw_assignment_type: "required (assignment_kw a u) ''assignment_type'' as_str = patch_required (asu_assignment_type u) (assignment_type a)"
  by (simp add: assignment_kw_simps split: field.splits option.splits)

lemma as_kw_course_id: "required (assignment_kw a u) ''course_id'' as_uuid = patch_required (asu_course_id u) (course_id a)"
  by (simp add: assignment_kw_simps split: field.splits option.splits)

lemma as_kw_assigned_date: "required (assignment_kw a u) ''assigned_date'' as_date = patch_required (asu_assigned_date u) (assigned_date a)"
  by (simp add: assignment_kw_simps split: field.splits option.splits)

lemma as_kw_due_date: "required (assignment_kw a u) ''due_date'' as_date = patch_required (asu_due_date u) (due_date a)"
  by (simp add: assignment_kw_simps split: field.splits option.splits)

lemma as_kw_max_points: "optional (assignment_kw a u) ''max_points'' as_int = Some (patch_optional (asu_max_points u) (max_points a))"
  by (simp add: assignment_kw_simps split: field.splits option.splits)

lemma as_kw_id: "dict_get (assignment_kw a u) ''id'' = Some (PUUID (as_id a))"
  by (simp add: assignment_kw_simps)

lemma as_kw_created_at: "dict_get (assignment_kw a u) ''created_at'' = Some (PDatetime (as_created_at a))"
  by (simp add: assignment_kw_simps)

lemma as_kw_updated_at: "dict_get (assignment_kw a u) ''updated_at'' = Some (PDatetime (as_updated_at a))"
  by (simp add: assignment_kw_simps)

lemma AssignmentRead_init_assignment_kw:
  "AssignmentRead_init (assignment_kw a u) s =
     (case AssignmentRead_patch a u of None \<Rightarrow> Inl ValidationError | Some r \<Rightarrow> Inr r, s)"
  by (simp add: AssignmentRead_init_def default_factory_def as_kw_id as_kw_created_at
      as_kw_updated_at as_kw_title as_kw_description as_kw_assignment_type as_kw_course_id
      as_kw_assigned_date as_kw_due_date as_kw_max_points AssignmentRead_patch_def)

lemma update_assignment_eq:
  "update_assignment aid u s =
     (case dict_get (assignments s) aid of
        None \<Rightarrow> (Inl (HTTPException 404 ''Assignment not found''), s)
      | Some a \<Rightarrow>
          (case AssignmentRead_patch a u of
             None \<Rightarrow> (Inl ValidationError, s)
           | Some r \<Rightarrow> (Inr r, s\<lparr>assignments := dict_set aid r (assignments s)\<rparr>)))"
  by (simp add: update_assignment_def dict_contains_def dict_getitem_def dict_get_dict_set
      AssignmentRead_init_assignment_kw [unfolded assignment_kw_def] dict_get_def [symmetric]
      split: option.splits)



lemma get_assignment_eq:
  "get_assignment aid s =
     (case dict_get (assignments s) aid of
        None \<Rightarrow> (Inl (HTTPException 404 ''Assignment not found''), s)
      | Some a \<Rightarrow> (Inr a, s))"
  by (simp add: get_assignment_def dict_contains_def dict_getitem_def dict_get_def
      split: option.splits)

lemma AssignmentRead_patch_Some:
  "AssignmentRead_patch a u = Some r \<longleftrightarrow>
     (\<exists>ti ty co ad du.
        patch_required (asu_title u) (as_title a) = Some ti \<and>
        patch_required (asu_assignment_type u) (assignment_type a) = Some ty \<and>
        patch_required (asu_course_id u) (course_id a) = Some co \<and>
        patch_required (asu_assigned_date u) (assigned_date a) = Some ad \<and>
        patch_required (asu_due_date u) (due_date a) = Some du \<and>
        r = \<lparr>as_title = ti,
             as_description = patch_optional (asu_description u) (as_description a),
             assignment_type = ty, course_id = co, assigned_date = ad, due_date = du,
             max_points = patch_optional (asu_max_points u) (max_points a),
             as_id = as_id a, as_created_at = as_created_at a,
             as_updated_at = as_updated_at a\<rparr>)"
  unfolding AssignmentRead_patch_def bind_eq_Some_conv by blast

lemma AssignmentRead_patch_fields:
  assumes "AssignmentRead_patch a u = Some r"
  shows "assignment_fields_merged a u r" and "as_id r = as_id a"
    and "as_created_at r = as_created_at a" and "as_updated_at r = as_updated_at a"
proof -
  from assms obtain ti ty co ad du where
    p: "patch_required (asu_title u) (as_title a) = Some ti"
       "patch_required (asu_assignment_type u) (assignment_type a) = Some ty"
       "patch_required (asu_course_id u) (course_id a) = Some co"
       "patch_required (asu_assigned_date u) (assigned_date a) = Some ad"
       "patch_required (asu_due_date u) (due_date a) = Some du"
    and r: "r = \<lparr>as_title = ti,
             as_description = patch_optional (asu_description u) (as_description a),
             assignment_type = ty, course_id = co, assigned_date = ad, due_date = du,
             max_points = patch_optional (asu_max_points u) (max_points a),
             as_id = as_id a, as_created_at = as_created_at a,
             as_updated_at = as_updated_at a\<rparr>"
    unfolding AssignmentRead_patch_Some by blast
  show "assignment_fields_merged a u r"
    unfolding assignment_fields_merged_def
    by (simp add: r p [THEN patch_required_overwrites] patch_optional_overwrites)
  show "as_id r = as_id a" "as_created_at r = as_created_at a" "as_updated_at r = as_updated_at a"
    by (simp_all add: r)
qed

lemma AssignmentRead_patch_valid:
  assumes "assignment_update_valid u"
  shows "AssignmentRead_patch a u \<noteq> None"
proof -
  from assms have n: "not_null (asu_title u)" "not_null (asu_assignment_type u)"
    "not_null (asu_course_id u)" "not_null (asu_assigned_date u)" "not_null (asu_due_date u)"
    by (simp_all add: assignment_update_valid_def)
  from patch_required_not_null [OF n(1), of "as_title a"]
  obtain ti where 1: "patch_required (asu_title u) (as_title a) = Some ti"
    by (elim exE)
  from patch_required_not_null [OF n(2), of "assignment_type a"]
  obtain ty where 2: "patch_required (asu_assignment_type u) (assignment_type a) = Some ty"
    by (elim exE)
  from patch_required_not_null [OF n(3), of "course_id a"]
  obtain co where 3: "patch_required (asu_course_id u) (course_id a) = Some co"
    by (elim exE)
  from patch_required_not_null [OF n(4), of "assigned_date a"]
  obtain ad where 4: "patch_required (asu_assigned_date u) (assigned_date a) = Some ad"
    by (elim exE)
  from patch_required_not_null [OF n(5), of "due_date a"]
  obtain du where 5: "patch_required (asu_due_date u) (due_date a) = Some du"
    by (elim exE)
  show ?thesis
    by (simp add: AssignmentRead_patch_def 1 2 3 4 5)
qed

section \<open>Address: what the constructor and the handlers compute\<close>

lemmas address_kw_simps = address_kw_def AddressRead_model_dump_def
  AddressBase_model_dump_def AddressUpdate_model_dump_exclude_unset_def kw_simps

lemma ad_kw_street: "required (address_kw a u) ''street'' as_str = patch_required (adu_street u) (street a)"
  by (simp add: address_kw_simps split: field.splits option.splits)

lemma ad_kw_city: "required (address_kw a u) ''city'' as_str = patch_required (adu_city u) (city a)"
  by (simp add: address_kw_simps split: field.splits option.splits)

lemma ad_kw_state: "optional (address_kw a u) ''state'' as_str = Some (patch_optional (adu_state u) (state a))"
  by (simp add: address_kw_simps split: field.splits option.splits)

lemma ad_kw_postal_code: "optional (address_kw a u) ''postal_code'' as_str = Some (patch_optional (adu_postal_code u) (postal_code a))"
  by (simp add: address_kw_simps split: field.splits option.splits)

lemma ad_kw_country: "required (address_kw a u) ''country'' as_str = patch_required (adu_country u) (country a)"
  by (simp add: address_kw_simps split: field.splits option.splits)

lemma ad_kw_id: "dict_get (address_kw a u) ''id'' = Some (PUUID (ad_id a))"
  by (simp add: address_kw_simps)

lemma ad_kw_created_at: "dict_get (address_kw a u) ''created_at'' = Some (PDatetime (ad_created_at a))"
  by (simp add: address_kw_simps)

lemma ad_kw_updated_at: "dict_get (address_kw a u) ''updated_at'' = Some (PDatetime (ad_updated_at a))"
  by (simp add: address_kw_simps)

lemma AddressRead_init_address_kw:
  "AddressRead_init (address_kw a u) s =
     (case AddressRead_patch a u of None \<Rightarrow> Inl ValidationError | Some r \<Rightarrow> Inr r, s)"
  by (simp add: AddressRead_init_def default_factory_def ad_kw_id ad_kw_created_at
      ad_kw_updated_at ad_kw_street ad_kw_city ad_kw_state ad_kw_postal_code ad_kw_country
      AddressRead_patch_def)

lemma update_address_eq:
  "update_address aid u s =
     (case dict_get (addresses s) aid of
        None \<Rightarrow> (Inl (HTTPException 404 ''Address not found''), s)
      | Some a \<Rightarrow>
          (case AddressRead_patch a u of
             None \<Rightarrow> (Inl ValidationError, s)
           | Some r \<Rightarrow> (Inr r, s\<lparr>addresses := dict_set aid r (addresses s)\<rparr>)))"
  by (simp add: update_address_def dict_contains_def dict_getitem_def dict_get_dict_set
      AddressRead_init_address_kw [unfolded address_kw_def] dict_get_def [symmetric]
      split: option.splits)

lemma AddressRead_init_create:
  "AddressRead_init (AddressBase_model_dump a) s =
     (Inr \<lparr>ad_id = ad_id a, street = street a, city = city a, state = state a,
           postal_code = postal_code a, country = country a,
           ad_created_at = utcnow_results s 0, ad_updated_at = utcnow_results s 1\<rparr>,
      s\<lparr>utcnow_results := \<lambda>n. utcnow_results s (Suc (Suc n))\<rparr>)"
  by (simp add: AddressRead_init_def default_factory_def AddressBase_model_dump_def
      dict_get_def utcnow_def required_def optional_def opt_def split: option.splits)

lemma create_address_eq:
  "create_address a s =
     (if dict_get (addresses s) (ad_id a) \<noteq> None
      then (Inl (HTTPException 400 ''Address with this ID already exists''), s)
      else
        (let r = \<lparr>ad_id = ad_id a, street = street a, city = city a, state = state a,
               postal_code = postal_code a, country = country a,
               ad_created_at = utcnow_results s 0, ad_updated_at = utcnow_results s 1\<rparr>
         in (Inr r,
             s\<lparr>addresses := addresses s @ [(ad_id a, r)],
               utcnow_results := \<lambda>n. utcnow_results s (Suc (Suc n))\<rparr>)))"
  by (simp add: create_address_def AddressRead_init_create Let_def dict_contains_def
      dict_getitem_dict_set dict_set_absent dict_get_def [symmetric])

lemma get_address_eq:
  "get_address aid s =
     (case dict_get (addresses s) aid of
        None \<Rightarrow> (Inl (HTTPException 404 ''Address not found''), s)
      | Some a \<Rightarrow> (Inr a, s))"
  by (simp add: get_address_def dict_contains_def dict_getitem_def dict_get_def
      split: option.splits)

lemma AddressRead_patch_empty: "AddressRead_patch a empty_address_update = Some a"
  by (simp add: AddressRead_patch_def empty_address_update_def patch_required_Unset
      patch_optional_Unset)

section \<open>Person: what the constructor and the handlers compute\<close>

lemma AddressBase_init_dump:
  fixes a :: AddressBase
  shows "AddressBase_init (AddressBase_model_dump a) s = (Some a, s)"
  by (simp add: AddressBase_init_def default_factory_def AddressBase_model_dump_def
      dict_get_def required_def optional_def opt_def split: option.splits)

lemma as_addresses_dump:
  "as_addresses (map (\<lambda>a. PDict (AddressBase_model_dump a)) as) s = (Some as, s)"
  by (induction as) (simp_all add: AddressBase_init_dump)

lemmas person_kw_simps = person_kw_def PersonRead_model_dump_def
  PersonBase_model_dump_def PersonUpdate_model_dump_exclude_unset_def kw_simps

lemma p_kw_uni: "required (person_kw p u) ''uni'' as_str = patch_required (pu_uni u) (uni p)"
  by (simp add: person_kw_simps split: field.splits option.splits)

lemma p_kw_first_name: "required (person_kw p u) ''first_name'' as_str = patch_required (pu_first_name u) (first_name p)"
  by (simp add: person_kw_simps split: field.splits option.splits)

lemma p_kw_last_name: "required (person_kw p u) ''last_name'' as_str = patch_required (pu_last_name u) (last_name p)"
  by (simp add: person_kw_simps split: field.splits option.splits)

lemma p_kw_email: "required (person_kw p u) ''email'' as_str = patch_required (pu_email u) (email p)"
  by (simp add: person_kw_simps split: field.splits option.splits)

lemma p_kw_phone: "optional (person_kw p u) ''phone'' as_str = Some (patch_optional (pu_phone u) (phone p))"
  by (simp add: person_kw_simps split: field.splits option.splits)

lemma p_kw_birth_date: "optional (person_kw p u) ''birth_date'' as_date = Some (patch_optional (pu_birth_date u) (birth_date p))"
  by (simp add: person_kw_simps split: field.splits option.splits)

lemma p_kw_addresses:
  "(case dict_get (person_kw p u) ''addresses'' of
      None \<Rightarrow> (Some [], s)
    | Some (PList vs) \<Rightarrow> as_addresses vs s
    | Some _ \<Rightarrow> (None, s)) = (patch_required (pu_addresses u) (p_addresses p), s)"
  by (simp add: person_kw_simps dump_addresses_def as_addresses_dump
      split: field.splits option.splits)

lemma p_kw_id: "dict_get (person_kw p u) ''id'' = Some (PUUID (p_id p))"
  by (simp add: person_kw_simps)

lemma p_kw_created_at: "dict_get (person_kw p u) ''created_at'' = Some (PDatetime (p_created_at p))"
  by (simp add: person_kw_simps)

lemma p_kw_updated_at: "dict_get (person_kw p u) ''updated_at'' = Some (PDatetime (p_updated_at p))"
  by (simp add: person_kw_simps)

lemma PersonRead_init_person_kw:
  "PersonRead_init (person_kw p u) s =
     (case PersonRead_patch p u of None \<Rightarrow> Inl ValidationError | Some r \<Rightarrow> Inr r, s)"
  by (simp add: PersonRead_init_def default_factory_def p_kw_addresses p_kw_id p_kw_created_at
      p_kw_updated_at p_kw_uni p_kw_first_name p_kw_last_name p_kw_email p_kw_phone
      p_kw_birth_date PersonRead_patch_def)

lemma update_person_eq:
  "update_person pid u s =
     (case dict_get (persons s) pid of
        None \<Rightarrow> (Inl (HTTPException 404 ''Person not found''), s)
      | Some p \<Rightarrow>
          (case PersonRead_patch p u of
             None \<Rightarrow> (Inl ValidationError, s)
           | Some r \<Rightarrow> (Inr r, s\<lparr>persons := dict_set pid r (persons s)\<rparr>)))"
  by (simp add: update_person_def dict_contains_def dict_getitem_def dict_get_dict_set
      PersonRead_init_person_kw [unfolded person_kw_def] dict_get_def [symmetric]
      split: option.splits)



lemma get_person_eq:
  "get_person pid s =
     (case dict_get (persons s) pid of
        None \<Rightarrow> (Inl (HTTPException 404 ''Person not found''), s)
      | Some p \<Rightarrow> (Inr p, s))"
  by (simp add: get_person_def dict_contains_def dict_getitem_def dict_get_def
      split: option.splits)

section \<open>The list endpoints as one filter\<close>

lemma filter_query_filter:
  "query_filter q p (filter P xs) =
     filter (\<lambda>x. P x \<and> (case q of None \<Rightarrow> True | Some v \<Rightarrow> p x v)) xs"
  by (cases q) (simp_all add: query_filter_def)

lemma list_courses_eq:
  "list_courses q_course_code q_title q_instructor q_credits q_semester s =
     (Inr (filter (\<lambda>c.
        (case q_course_code of None \<Rightarrow> True | Some v \<Rightarrow> course_code c = v) \<and>
        (case q_title of None \<Rightarrow> True | Some v \<Rightarrow> c_title c = v) \<and>
        (case q_instructor of None \<Rightarrow> True | Some v \<Rightarrow> instructor c = v) \<and>
        (case q_credits of None \<Rightarrow> True | Some v \<Rightarrow> credits c = v) \<and>
        (case q_semester of None \<Rightarrow> True | Some v \<Rightarrow> semester c = Some v))
        (dict_values (courses s))), s)"
  by (simp add: list_courses_def query_filter_filter [of q_course_code] filter_query_filter)

lemma list_assignments_eq:
  "list_assignments q_title q_assignment_type q_course_id q_due_date q_assigned_date s =
     (Inr (filter (\<lambda>a.
        (case q_title of None \<Rightarrow> True | Some v \<Rightarrow> as_title a = v) \<and>
        (case q_assignment_type of None \<Rightarrow> True | Some v \<Rightarrow> assignment_type a = v) \<and>
        (case q_course_id of None \<Rightarrow> True | Some v \<Rightarrow> course_id a = v) \<and>
        (case q_due_date of None \<Rightarrow> True | Some v \<Rightarrow> str_date (due_date a) = v) \<and>
        (case q_assigned_date of None \<Rightarrow> True | Some v \<Rightarrow> str_date (assigned_date a) = v))
        (dict_values (assignments s))), s)"
  by (simp add: list_assignments_def query_filter_filter [of q_title] filter_query_filter)

lemma list_addresses_eq:
  "list_addresses q_street q_city q_state q_postal_code q_country s =
     (Inr (filter (\<lambda>a.
        (case q_street of None \<Rightarrow> True | Some v \<Rightarrow> street a = v) \<and>
        (case q_city of None \<Rightarrow> True | Some v \<Rightarrow> city a = v) \<and>
        (case q_state of None \<Rightarrow> True | Some v \<Rightarrow> state a = Some v) \<and>
        (case q_postal_code of None \<Rightarrow> True | Some v \<Rightarrow> postal_code a = Some v) \<and>
        (case q_country of None \<Rightarrow> True | Some v \<Rightarrow> country a = v))
        (dict_values (addresses s))), s)"
  by (simp add: list_addresses_def query_filter_filter [of q_street] filter_query_filter)

lemma list_persons_eq:
  "list_persons q_uni q_first_name q_last_name q_email q_phone q_birth_date q_city q_country s =
     (Inr (filter (\<lambda>p.
        (case q_uni of None \<Rightarrow> True | Some v \<Rightarrow> uni p = v) \<and>
        (case q_first_name of None \<Rightarrow> True | Some v \<Rightarrow> first_name p = v) \<and>
        (case q_last_name of None \<Rightarrow> True | Some v \<Rightarrow> last_name p = v) \<and>
        (case q_email of None \<Rightarrow> True | Some v \<Rightarrow> email p = v) \<and>
        (case q_phone of None \<Rightarrow> True | Some v \<Rightarrow> phone p = Some v) \<and>
        (case q_birth_date of None \<Rightarrow> True | Some v \<Rightarrow> str_opt_date (birth_date p) = v) \<and>
        (case q_city of None \<Rightarrow> True
         | Some v \<Rightarrow> list_ex (\<lambda>addr. city addr = v) (p_addresses p)) \<and>
        (case q_country of None \<Rightarrow> True
         | Some v \<Rightarrow> list_ex (\<lambda>addr. country addr = v) (p_addresses p)))
        (dict_values (persons s))), s)"
  by (simp add: list_persons_def query_filter_filter [of q_uni] filter_query_filter)

section \<open>The claims\<close>

lemma update_course_Inr:
  assumes "dict_get (courses s) cid = Some c" and "CourseRead_patch c u = Some r"
  shows "update_course cid u s = (Inr r, s\<lparr>courses := dict_set cid r (courses s)\<rparr>)"
  by (simp add: update_course_eq assms)

lemma update_course_invalid:
  assumes "dict_get (courses s) cid = Some c" and "CourseRead_patch c u = None"
  shows "update_course cid u s = (Inl ValidationError, s)"
  by (simp add: update_course_eq assms)

lemma update_course_absent:
  assumes "dict_get (courses s) cid = None"
  shows "update_course cid u s = (Inl (HTTPException 404 ''Course not found''), s)"
  by (simp add: update_course_eq assms)


lemma map_fst_dict_set_present:
  "dict_get d k = Some x \<Longrightarrow> map fst (dict_set k v d) = map fst d"
  unfolding dict_get_def
  by (induction d) (auto split: if_splits)

lemma dict_get_append_absent:
  "dict_get d k = None \<Longrightarrow> dict_get (d @ [(k, v)]) k = Some v"
  by (simp add: dict_get_def map_add_def)

lemma update_assignment_Inr:
  assumes "dict_get (assignments s) aid = Some a" and "AssignmentRead_patch a u = Some r"
  shows "update_assignment aid u s = (Inr r, s\<lparr>assignments := dict_set aid r (assignments s)\<rparr>)"
  by (simp add: update_assignment_eq assms)

lemma update_course_merges:
  assumes "dict_get (courses s) cid = Some c" and "course_update_valid u"
  shows "case update_course cid u s of
           (Inr r, s') \<Rightarrow> course_fields_merged c u r \<and> dict_get (courses s') cid = Some r
         | (Inl e, s') \<Rightarrow> False"
proof (cases "CourseRead_patch c u")
  case None
  with CourseRead_patch_valid [OF assms(2), of c] show ?thesis by simp
next
  case (Some r)
  show ?thesis
    by (simp add: update_course_Inr [OF assms(1) Some] CourseRead_patch_fields(1) [OF Some]
        dict_get_dict_set)
qed

lemma update_assignment_merges:
  assumes "dict_get (assignments s) aid = Some a" and "assignment_update_valid u"
  shows "case update_assignment aid u s of
           (Inr r, s') \<Rightarrow> assignment_fields_merged a u r \<and> dict_get (assignments s') aid = Some r
         | (Inl e, s') \<Rightarrow> False"
proof (cases "AssignmentRead_patch a u")
  case None
  with AssignmentRead_patch_valid [OF assms(2), of a] show ?thesis by simp
next
  case (Some r)
  show ?thesis
    by (simp add: update_assignment_Inr [OF assms(1) Some]
        AssignmentRead_patch_fields(1) [OF Some] dict_get_dict_set)
qed

lemma AssignmentRead_patch_idem:
  assumes "AssignmentRead_patch a u = Some r"
  shows "AssignmentRead_patch r u = Some r"
proof -
  from assms obtain ti ty co ad du where
    p: "patch_required (asu_title u) (as_title a) = Some ti"
       "patch_required (asu_assignment_type u) (assignment_type a) = Some ty"
       "patch_required (asu_course_id u) (course_id a) = Some co"
       "patch_required (asu_assigned_date u) (assigned_date a) = Some ad"
       "patch_required (asu_due_date u) (due_date a) = Some du"
    and r: "r = \<lparr>as_title = ti,
             as_description = patch_optional (asu_description u) (as_description a),
             assignment_type = ty, course_id = co, assigned_date = ad, due_date = du,
             max_points = patch_optional (asu_max_points u) (max_points a),
             as_id = as_id a, as_created_at = as_created_at a,
             as_updated_at = as_updated_at a\<rparr>"
    unfolding AssignmentRead_patch_Some by blast
  show ?thesis
    by (simp add: AssignmentRead_patch_def r p [THEN patch_required_idem] patch_optional_idem)
qed

lemma update_assignment_invalid:
  assumes "dict_get (assignments s) aid = Some a" and "AssignmentRead_patch a u = None"
  shows "update_assignment aid u s = (Inl ValidationError, s)"
  by (simp add: update_assignment_eq assms)

lemma update_assignment_absent:
  assumes "dict_get (assignments s) aid = None"
  shows "update_assignment aid u s = (Inl (HTTPException 404 ''Assignment not found''), s)"
  by (simp add: update_assignment_eq assms)

lemma update_course_preserves:
  assumes "dict_get (courses s) cid = Some c"
  shows "case update_course cid u s of
           (Inr r, s') \<Rightarrow>
             c_id r = c_id c \<and> c_created_at r = c_created_at c \<and>
             dict_get (courses s') cid = Some r
         | (Inl e, s') \<Rightarrow> dict_get (courses s') cid = Some c"
proof (cases "CourseRead_patch c u")
  case None
  with assms show ?thesis
    by (simp add: update_course_invalid)
next
  case (Some r)
  with assms show ?thesis
    by (simp add: update_course_Inr CourseRead_patch_fields(2,3) [OF Some] dict_get_dict_set)
qed

lemma update_assignment_preserves:
  assumes "dict_get (assignments s) aid = Some a"
  shows "case update_assignment aid u s of
           (Inr r, s') \<Rightarrow>
             as_id r = as_id a \<and> as_created_at r = as_created_at a \<and>
             dict_get (assignments s') aid = Some r
         | (Inl e, s') \<Rightarrow> dict_get (assignments s') aid = Some a"
proof (cases "AssignmentRead_patch a u")
  case None
  with assms show ?thesis
    by (simp add: update_assignment_invalid)
next
  case (Some r)
  with assms show ?thesis
    by (simp add: update_assignment_Inr AssignmentRead_patch_fields(2,3) [OF Some]
        dict_get_dict_set)
qed

lemma update_course_twice:
  "update_course cid u (snd (update_course cid u s)) = update_course cid u s"
proof (cases "dict_get (courses s) cid")
  case None
  then show ?thesis by (simp add: update_course_absent)
next
  case (Some c)
  show ?thesis
  proof (cases "CourseRead_patch c u")
    case None
    with Some show ?thesis by (simp add: update_course_invalid)
  next
    case (Some r)
    let ?s' = "s\<lparr>courses := dict_set cid r (courses s)\<rparr>"
    have 1: "update_course cid u s = (Inr r, ?s')"
      using \<open>dict_get (courses s) cid = Some c\<close> Some by (rule update_course_Inr)
    have "dict_get (courses ?s') cid = Some r"
      by (simp add: dict_get_dict_set)
    then have "update_course cid u ?s' = (Inr r, ?s'\<lparr>courses := dict_set cid r (courses ?s')\<rparr>)"
      using CourseRead_patch_idem [OF Some] by (rule update_course_Inr)
    then show ?thesis
      by (simp add: 1 dict_set_idem)
  qed
qed

lemma update_assignment_twice:
  "update_assignment aid u (snd (update_assignment aid u s)) = update_assignment aid u s"
proof (cases "dict_get (assignments s) aid")
  case None
  then show ?thesis by (simp add: update_assignment_absent)
next
  case (Some a)
  show ?thesis
  proof (cases "AssignmentRead_patch a u")
    case None
    with Some show ?thesis by (simp add: update_assignment_invalid)
  next
    case (Some r)
    let ?s' = "s\<lparr>assignments := dict_set aid r (assignments s)\<rparr>"
    have 1: "update_assignment aid u s = (Inr r, ?s')"
      using \<open>dict_get (assignments s) aid = Some a\<close> Some by (rule update_assignment_Inr)
    have "dict_get (assignments ?s') aid = Some r"
      by (simp add: dict_get_dict_set)
    then have "update_assignment aid u ?s' =
        (Inr r, ?s'\<lparr>assignments := dict_set aid r (assignments ?s')\<rparr>)"
      using AssignmentRead_patch_idem [OF Some] by (rule update_assignment_Inr)
    then show ?thesis
      by (simp add: 1 dict_set_idem)
  qed
qed

text \<open>
  The handlers that look a record up fail with status 404 exactly when the identifier is
  not in the store, and a handler that fails leaves the state unchanged.
\<close>

lemma not_found_iff_absent:
  "fst (get_course cid s) = Inl (HTTPException 404 ''Course not found'') \<longleftrightarrow>
     \<not> dict_contains cid (courses s)"
  "fst (update_course cid cu s) = Inl (HTTPException 404 ''Course not found'') \<longleftrightarrow>
     \<not> dict_contains cid (courses s)"
  "fst (delete_course cid s) = Inl (HTTPException 404 ''Course not found'') \<longleftrightarrow>
     \<not> dict_contains cid (courses s)"
  "fst (get_assignment aid s) = Inl (HTTPException 404 ''Assignment not found'') \<longleftrightarrow>
     \<not> dict_contains aid (assignments s)"
  "fst (update_assignment aid au s) = Inl (HTTPException 404 ''Assignment not found'') \<longleftrightarrow>
     \<not> dict_contains aid (assignments s)"
  "fst (get_address adid s) = Inl (HTTPException 404 ''Address not found'') \<longleftrightarrow>
     \<not> dict_contains adid (addresses s)"
  "fst (update_address adid adu s) = Inl (HTTPException 404 ''Address not found'') \<longleftrightarrow>
     \<not> dict_contains adid (addresses s)"
  "fst (delete_address adid s) = Inl (HTTPException 404 ''Address not found'') \<longleftrightarrow>
     \<not> dict_contains adid (addresses s)"
  "fst (get_person pid s) = Inl (HTTPException 404 ''Person not found'') \<longleftrightarrow>
     \<not> dict_contains pid (persons s)"
  "fst (update_person pid pu s) = Inl (HTTPException 404 ''Person not found'') \<longleftrightarrow>
     \<not> dict_contains pid (persons s)"
  by (auto simp: get_course_eq update_course_eq delete_course_def get_assignment_eq
      update_assignment_eq get_address_eq update_address_eq delete_address_def get_person_eq
      update_person_eq dict_contains_def dict_get_def split: option.splits)

lemma failure_leaves_state:
  "fst (get_course cid s) = Inl e \<Longrightarrow> snd (get_course cid s) = s"
  "fst (update_course cid cu s) = Inl e \<Longrightarrow> snd (update_course cid cu s) = s"
  "fst (delete_course cid s) = Inl e \<Longrightarrow> snd (delete_course cid s) = s"
  "fst (get_assignment aid s) = Inl e \<Longrightarrow> snd (get_assignment aid s) = s"
  "fst (update_assignment aid au s) = Inl e \<Longrightarrow> snd (update_assignment aid au s) = s"
  "fst (get_address adid s) = Inl e \<Longrightarrow> snd (get_address adid s) = s"
  "fst (update_address adid adu s) = Inl e \<Longrightarrow> snd (update_address adid adu s) = s"
  "fst (delete_address adid s) = Inl e \<Longrightarrow> snd (delete_address adid s) = s"
  "fst (create_address ad s) = Inl e \<Longrightarrow> snd (create_address ad s) = s"
  "fst (get_person pid s) = Inl e \<Longrightarrow> snd (get_person pid s) = s"
  "fst (update_person pid pu s) = Inl e \<Longrightarrow> snd (update_person pid pu s) = s"
  by (auto simp: get_course_eq update_course_eq delete_course_def get_assignment_eq
      update_assignment_eq get_address_eq update_address_eq delete_address_def get_person_eq
      update_person_eq create_address_eq Let_def split: option.splits if_splits)

text \<open>No update handler changes \<open>updated_at\<close>.\<close>

lemma update_keeps_updated_at:
  "update_course cid cu s = (Inr r, s') \<Longrightarrow> dict_get (courses s) cid = Some c \<Longrightarrow>
     c_updated_at r = c_updated_at c"
  "update_assignment aid au s = (Inr ar, s') \<Longrightarrow> dict_get (assignments s) aid = Some a \<Longrightarrow>
     as_updated_at ar = as_updated_at a"
  by (auto simp: update_course_eq update_assignment_eq CourseRead_patch_fields(4)
      AssignmentRead_patch_fields(4) split: option.splits)

text \<open>
  Claim C1 says that a successful update sets \<open>updated_at\<close> to the current time, so
  that after an update that follows a create \<open>updated_at > created_at\<close>. The handler
  passes the stored \<open>updated_at\<close> back to the constructor, so the default factory is
  never called: the course created at time 1000 and updated when the clock reads 2000
  still has \<open>updated_at = created_at = 1000\<close>.
\<close>

theorem update_course_keeps_updated_at:
  "(case create_course cloud_computing empty_state of
      (Inr r, s1) \<Rightarrow>
        utcnow_results s1 0 = 2000 \<and>
        (case update_course (c_id r) credits_4 s1 of
           (Inr r', s2) \<Rightarrow>
             c_id r' = c_id r \<and> course_code r' = course_code r \<and> credits r' = 4 \<and>
             c_created_at r' = 1000 \<and> c_updated_at r' = 1000
         | (Inl e, s2) \<Rightarrow> False)
    | (Inl e, s1) \<Rightarrow> False)"
  by (simp add: create_course_eq update_course_eq empty_state_def cloud_computing_def
      credits_4_def empty_update_def dict_get_def CourseRead_patch_def patch_required_def
      patch_optional_def Let_def)

text \<open>
  Claim C2, amended: for every stored course or assignment and every update payload that
  supplies no \<open>null\<close> for a field the read model requires, the update succeeds, and
  in the returned record, which is also the stored one, every supplied field has the
  supplied value (an empty string, or \<open>null\<close> for an optional field, included) and
  every other field has its prior value.
\<close>

theorem update_overwrites_supplied_fields:
  "(dict_get (courses s) cid = Some c \<and> course_update_valid cu \<longrightarrow>
      (case update_course cid cu s of
         (Inr r, s') \<Rightarrow> course_fields_merged c cu r \<and> dict_get (courses s') cid = Some r
       | (Inl e, s') \<Rightarrow> False)) \<and>
   (dict_get (assignments s) aid = Some a \<and> assignment_update_valid au \<longrightarrow>
      (case update_assignment aid au s of
         (Inr r, s') \<Rightarrow>
           assignment_fields_merged a au r \<and> dict_get (assignments s') aid = Some r
       | (Inl e, s') \<Rightarrow> False))"
proof (intro conjI impI)
  assume "dict_get (courses s) cid = Some c \<and> course_update_valid cu"
  then show "case update_course cid cu s of
               (Inr r, s') \<Rightarrow> course_fields_merged c cu r \<and> dict_get (courses s') cid = Some r
             | (Inl e, s') \<Rightarrow> False"
    by (elim conjE) (rule update_course_merges)
next
  assume "dict_get (assignments s) aid = Some a \<and> assignment_update_valid au"
  then show "case update_assignment aid au s of
               (Inr r, s') \<Rightarrow>
                 assignment_fields_merged a au r \<and> dict_get (assignments s') aid = Some r
             | (Inl e, s') \<Rightarrow> False"
    by (elim conjE) (rule update_assignment_merges)
qed

theorem update_overwrites_supplied_fields_witness:
  "dict_get (courses busy_state) 7 = Some stored_course \<and>
   course_update_valid empty_title \<and>
   (case update_course 7 empty_title busy_state of
      (Inr r, s') \<Rightarrow>
        course_fields_merged stored_course empty_title r \<and>
        dict_get (courses s') 7 = Some r \<and> c_title r = [] \<and> credits r = 3
    | (Inl e, s') \<Rightarrow> False) \<and>
   dict_get (assignments busy_state) 9 = Some stored_assignment \<and>
   assignment_update_valid later_due_date \<and>
   (case update_assignment 9 later_due_date busy_state of
      (Inr r, s') \<Rightarrow>
        assignment_fields_merged stored_assignment later_due_date r \<and>
        dict_get (assignments s') 9 = Some r \<and> due_date r = Date 2025 10 20 \<and>
        as_title r = ''Midterm Exam''
    | (Inl e, s') \<Rightarrow> False)"
proof -
  have 1: "dict_get (courses busy_state) 7 = Some stored_course"
    by (simp add: busy_state_def dict_get_def)
  have 2: "course_update_valid empty_title"
    by (simp add: course_update_valid_def empty_title_def empty_update_def not_null_def)
  have 3: "dict_get (assignments busy_state) 9 = Some stored_assignment"
    by (simp add: busy_state_def dict_get_def)
  have 4: "assignment_update_valid later_due_date"
    by (simp add: assignment_update_valid_def later_due_date_def empty_assignment_update_def
        not_null_def)
  have 5: "CourseRead_patch stored_course empty_title = Some (stored_course\<lparr>c_title := []\<rparr>)"
    by (simp add: CourseRead_patch_def empty_title_def empty_update_def patch_required_def
        patch_optional_def stored_course_def)
  have 6: "AssignmentRead_patch stored_assignment later_due_date =
             Some (stored_assignment\<lparr>due_date := Date 2025 10 20\<rparr>)"
    by (simp add: AssignmentRead_patch_def later_due_date_def empty_assignment_update_def
        patch_required_def patch_optional_def stored_assignment_def)
  from update_overwrites_supplied_fields
    [of busy_state 7 stored_course empty_title 9 stored_assignment later_due_date]
  show ?thesis
    by (simp add: 1 2 3 4 update_course_Inr [OF 1 5] update_assignment_Inr [OF 3 6]
        stored_course_def stored_assignment_def)
qed

text \<open>
  Claim C2 as stated, for every payload, fails: a payload that supplies \<open>null\<close> for
  \<open>title\<close> ends in a \<open>ValidationError\<close> and the stored title is not overwritten.
\<close>

theorem update_null_title_does_not_overwrite:
  "dict_get (courses busy_state) 7 = Some stored_course \<and>
   fst (update_course 7 null_title busy_state) = Inl ValidationError \<and>
   dict_get (courses (snd (update_course 7 null_title busy_state))) 7 = Some stored_course \<and>
   \<not> course_fields_merged stored_course null_title stored_course"
  by (simp add: update_course_eq busy_state_def dict_get_def null_title_def
      empty_update_def CourseRead_patch_def patch_required_def course_fields_merged_def
      overwrites_def)

text \<open>
  Claim C3: no update changes a record's \<open>id\<close> or \<open>created_at\<close>. After any
  update of a stored course or assignment, successful or not, the record in the store
  under that identifier has the \<open>id\<close> and the \<open>created_at\<close> it had before, and so
  has the returned record. (The update models have no \<open>id\<close> field, so an identifier
  in the request body never reaches the handler.)
\<close>

theorem update_preserves_id_and_created_at:
  "(dict_get (courses s) cid = Some c \<longrightarrow>
     (case update_course cid cu s of
        (Inr r, s') \<Rightarrow>
          c_id r = c_id c \<and> c_created_at r = c_created_at c \<and>
          dict_get (courses s') cid = Some r
      | (Inl e, s') \<Rightarrow> dict_get (courses s') cid = Some c)) \<and>
   (dict_get (assignments s) aid = Some a \<longrightarrow>
     (case update_assignment aid au s of
        (Inr r, s') \<Rightarrow>
          as_id r = as_id a \<and> as_created_at r = as_created_at a \<and>
          dict_get (assignments s') aid = Some r
      | (Inl e, s') \<Rightarrow> dict_get (assignments s') aid = Some a))"
  by (intro conjI impI) (erule update_course_preserves, erule update_assignment_preserves)

theorem update_preserves_id_and_created_at_witness:
  "dict_get (courses busy_state) 7 = Some stored_course \<and>
   (case update_course 7 credits_4 busy_state of
      (Inr r, s') \<Rightarrow>
        c_id r = 7 \<and> c_created_at r = 1000 \<and> credits r = 4 \<and>
        dict_get (courses s') 7 = Some r
    | (Inl e, s') \<Rightarrow> False) \<and>
   dict_get (assignments busy_state) 9 = Some stored_assignment \<and>
   (case update_assignment 9 later_due_date busy_state of
      (Inr r, s') \<Rightarrow>
        as_id r = 9 \<and> as_created_at r = 1500 \<and> due_date r = Date 2025 10 20 \<and>
        dict_get (assignments s') 9 = Some r
    | (Inl e, s') \<Rightarrow> False)"
proof -
  have 1: "dict_get (courses busy_state) 7 = Some stored_course"
    by (simp add: busy_state_def dict_get_def)
  have 2: "dict_get (assignments busy_state) 9 = Some stored_assignment"
    by (simp add: busy_state_def dict_get_def)
  have 3: "CourseRead_patch stored_course credits_4 = Some (stored_course\<lparr>credits := 4\<rparr>)"
    by (simp add: CourseRead_patch_def credits_4_def empty_update_def patch_required_def
        patch_optional_def stored_course_def)
  have 4: "AssignmentRead_patch stored_assignment later_due_date =
             Some (stored_assignment\<lparr>due_date := Date 2025 10 20\<rparr>)"
    by (simp add: AssignmentRead_patch_def later_due_date_def empty_assignment_update_def
        patch_required_def patch_optional_def stored_assignment_def)
  from update_preserves_id_and_created_at
    [where s = busy_state and cid = 7 and c = stored_course and cu = credits_4
       and aid = 9 and a = stored_assignment and au = later_due_date]
  show ?thesis
    by (simp add: 1 2 update_course_Inr [OF 1 3] update_assignment_Inr [OF 2 4]
        stored_course_def stored_assignment_def dict_get_dict_set)
qed

text \<open>
  Claim C4 says that \<open>Conflict\<close> and \<open>NotFound\<close> are the only errors of the core
  operations. An update of a stored course whose payload sets \<open>title\<close> to \<open>null\<close>
  ends in the constructor's \<open>ValidationError\<close>, a response with status 500; the store
  is unchanged.
\<close>

theorem update_course_null_title_fails:
  "dict_contains 7 (courses busy_state) \<and>
   cu_title null_title = Supplied None \<and>
   update_course 7 null_title busy_state = (Inl ValidationError, busy_state) \<and>
   response_status 200 (fst (update_course 7 null_title busy_state)) = 500"
  by (simp add: update_course_eq busy_state_def dict_get_def dict_contains_def null_title_def
      empty_update_def CourseRead_patch_def patch_required_def response_status_def)

text \<open>
  Claim C5: \<open>create_address\<close> fails with status 400 when the payload's identifier is
  in the store, and then the state is unchanged; otherwise the record, with the
  payload's identifier and fields, is appended to the store under that identifier and
  returned with status 201.
\<close>

theorem create_address_conflict_or_stored:
  "(dict_contains (ad_id a) (addresses s) \<longrightarrow>
      create_address a s = (Inl (HTTPException 400 ''Address with this ID already exists''), s) \<and>
      response_status 201 (fst (create_address a s)) = 400) \<and>
   (\<not> dict_contains (ad_id a) (addresses s) \<longrightarrow>
      (case create_address a s of
         (Inr r, s') \<Rightarrow>
           ad_id r = ad_id a \<and> street r = street a \<and> city r = city a \<and> state r = state a \<and>
           postal_code r = postal_code a \<and> country r = country a \<and>
           addresses s' = addresses s @ [(ad_id a, r)] \<and>
           dict_get (addresses s') (ad_id a) = Some r \<and>
           response_status 201 (fst (create_address a s)) = 201
       | (Inl e, s') \<Rightarrow> False))"
proof (cases "dict_get (addresses s) (ad_id a)")
  case None
  then have "\<not> dict_contains (ad_id a) (addresses s)"
    by (simp add: dict_contains_def dict_get_def)
  with None show ?thesis
    by (simp add: create_address_eq response_status_def Let_def dict_get_append_absent)
next
  case (Some x)
  then have "dict_contains (ad_id a) (addresses s)"
    by (simp add: dict_contains_def dict_get_def)
  with Some show ?thesis
    by (simp add: create_address_eq response_status_def)
qed

theorem create_address_conflict_or_stored_witness:
  "dict_contains (ad_id (home_address\<lparr>ad_id := 3\<rparr>)) (addresses busy_state) \<and>
   create_address (home_address\<lparr>ad_id := 3\<rparr>) busy_state =
     (Inl (HTTPException 400 ''Address with this ID already exists''), busy_state) \<and>
   \<not> dict_contains (ad_id home_address) (addresses busy_state) \<and>
   (case create_address home_address busy_state of
      (Inr r, s') \<Rightarrow>
        ad_id r = 4 \<and> city r = ''Boston'' \<and>
        dict_values (addresses s') = [stored_address, r] \<and>
        response_status 201 (fst (create_address home_address busy_state)) = 201
    | (Inl e, s') \<Rightarrow> False)"
proof -
  have 1: "dict_contains (ad_id (home_address\<lparr>ad_id := 3\<rparr>)) (addresses busy_state)"
    by (simp add: dict_contains_def busy_state_def)
  have 2: "\<not> dict_contains (ad_id home_address) (addresses busy_state)"
    by (simp add: dict_contains_def busy_state_def home_address_def)
  from create_address_conflict_or_stored [of "home_address\<lparr>ad_id := 3\<rparr>" busy_state]
    create_address_conflict_or_stored [of home_address busy_state] 1 2
  show ?thesis
    by (auto simp: home_address_def busy_state_def dict_values_def split: sum.splits prod.splits)
qed

text \<open>
  Claim C6: every list endpoint returns, in the order of the store, exactly the records
  that satisfy every supplied filter; it never fails and never changes the state. A
  string filter is equality, a date filter compares with \<open>str\<close> of the stored date,
  and the city and country filters of a person hold when some embedded address matches.
  With no filter the result is every record of the store. The order of the store is the
  insertion order: a created course with a new identifier is listed last, and an update
  keeps every record's position.
\<close>

theorem list_returns_matching_records_in_order:
  "list_courses q_course_code q_title q_instructor q_credits q_semester s =
     (Inr (filter (\<lambda>c.
        (case q_course_code of None \<Rightarrow> True | Some v \<Rightarrow> course_code c = v) \<and>
        (case q_title of None \<Rightarrow> True | Some v \<Rightarrow> c_title c = v) \<and>
        (case q_instructor of None \<Rightarrow> True | Some v \<Rightarrow> instructor c = v) \<and>
        (case q_credits of None \<Rightarrow> True | Some v \<Rightarrow> credits c = v) \<and>
        (case q_semester of None \<Rightarrow> True | Some v \<Rightarrow> semester c = Some v))
        (dict_values (courses s))), s) \<and>
   list_assignments qa_title q_assignment_type q_course_id q_due_date q_assigned_date s =
     (Inr (filter (\<lambda>a.
        (case qa_title of None \<Rightarrow> True | Some v \<Rightarrow> as_title a = v) \<and>
        (case q_assignment_type of None \<Rightarrow> True | Some v \<Rightarrow> assignment_type a = v) \<and>
        (case q_course_id of None \<Rightarrow> True | Some v \<Rightarrow> course_id a = v) \<and>
        (case q_due_date of None \<Rightarrow> True | Some v \<Rightarrow> str_date (due_date a) = v) \<and>
        (case q_assigned_date of None \<Rightarrow> True | Some v \<Rightarrow> str_date (assigned_date a) = v))
        (dict_values (assignments s))), s) \<and>
   list_addresses q_street qa_city q_state q_postal_code qa_country s =
     (Inr (filter (\<lambda>a.
        (case q_street of None \<Rightarrow> True | Some v \<Rightarrow> street a = v) \<and>
        (case qa_city of None \<Rightarrow> True | Some v \<Rightarrow> city a = v) \<and>
        (case q_state of None \<Rightarrow> True | Some v \<Rightarrow> state a = Some v) \<and>
        (case q_postal_code of None \<Rightarrow> True | Some v \<Rightarrow> postal_code a = Some v) \<and>
        (case qa_country of None \<Rightarrow> True | Some v \<Rightarrow> country a = v))
        (dict_values (addresses s))), s) \<and>
   list_persons q_uni q_first_name q_last_name q_email q_phone q_birth_date q_city q_country s =
     (Inr (filter (\<lambda>p.
        (case q_uni of None \<Rightarrow> True | Some v \<Rightarrow> uni p = v) \<and>
        (case q_first_name of None \<Rightarrow> True | Some v \<Rightarrow> first_name p = v) \<and>
        (case q_last_name of None \<Rightarrow> True | Some v \<Rightarrow> last_name p = v) \<and>
        (case q_email of None \<Rightarrow> True | Some v \<Rightarrow> email p = v) \<and>
        (case q_phone of None \<Rightarrow> True | Some v \<Rightarrow> phone p = Some v) \<and>
        (case q_birth_date of None \<Rightarrow> True | Some v \<Rightarrow> str_opt_date (birth_date p) = v) \<and>
        (case q_city of None \<Rightarrow> True
         | Some v \<Rightarrow> list_ex (\<lambda>addr. city addr = v) (p_addresses p)) \<and>
        (case q_country of None \<Rightarrow> True
         | Some v \<Rightarrow> list_ex (\<lambda>addr. country addr = v) (p_addresses p)))
        (dict_values (persons s))), s) \<and>
   list_courses None None None None None s = (Inr (dict_values (courses s)), s) \<and>
   list_assignments None None None None None s = (Inr (dict_values (assignments s)), s) \<and>
   list_addresses None None None None None s = (Inr (dict_values (addresses s)), s) \<and>
   list_persons None None None None None None None None s = (Inr (dict_values (persons s)), s) \<and>
   (\<not> dict_contains (uuid4_results s 0) (courses s) \<longrightarrow>
      fst (list_courses None None None None None (snd (create_course c s))) =
        Inr (dict_values (courses s) @ [projr (fst (create_course c s))])) \<and>
   map fst (courses (snd (update_course cid u s))) = map fst (courses s)"
proof -
  have 1: "\<not> dict_contains (uuid4_results s 0) (courses s) \<longrightarrow>
      fst (list_courses None None None None None (snd (create_course c s))) =
        Inr (dict_values (courses s) @ [projr (fst (create_course c s))])"
    by (simp add: create_course_eq Let_def list_courses_eq dict_contains_def
        dict_values_dict_set_absent dict_get_def)
  have 2: "map fst (courses (snd (update_course cid u s))) = map fst (courses s)"
    by (simp add: update_course_eq map_fst_dict_set_present split: option.splits)
  from 1 2 show ?thesis
    by (simp add: list_courses_eq list_assignments_eq list_addresses_eq list_persons_eq)
qed

theorem list_returns_matching_records_in_order_witness:
  "list_assignments None None None (Some ''2025-10-15'') None busy_state =
     (Inr [stored_assignment], busy_state) \<and>
   list_assignments None None None (Some ''2025-10-16'') None busy_state = (Inr [], busy_state) \<and>
   list_persons None None None None None (Some ''1815-12-10'') (Some ''Boston'') None busy_state =
     (Inr [stored_person], busy_state) \<and>
   list_persons None None None None None None (Some ''boston'') None busy_state =
     (Inr [], busy_state) \<and>
   list_courses (Some ''COMS W4153'') None None (Some 3) None busy_state =
     (Inr [stored_course], busy_state) \<and>
   \<not> dict_contains (uuid4_results busy_state 0) (courses busy_state) \<and>
   fst (list_courses None None None None None (snd (create_course cloud_computing busy_state))) =
     Inr [stored_course, projr (fst (create_course cloud_computing busy_state))] \<and>
   map fst (courses (snd (update_course 7 credits_4 busy_state))) = [7]"
  using list_returns_matching_records_in_order
    [where s = busy_state and c = cloud_computing and cid = 7 and u = credits_4
       and q_course_code = "Some ''COMS W4153''" and q_title = None and q_instructor = None
       and q_credits = "Some 3" and q_semester = None
       and qa_title = None and q_assignment_type = None and q_course_id = None
       and q_due_date = "Some ''2025-10-15''" and q_assigned_date = None
       and q_street = None and qa_city = None and q_state = None and q_postal_code = None
       and qa_country = None
       and q_uni = None and q_first_name = None and q_last_name = None and q_email = None
       and q_phone = None and q_birth_date = "Some ''1815-12-10''" and q_city = "Some ''Boston''"
       and q_country = None]
  by (simp add: list_courses_eq list_assignments_eq list_persons_eq busy_state_def
      dict_values_def dict_get_def dict_contains_def stored_assignment_def stored_person_def
      stored_course_def home_address_def str_opt_date_def digit_def)




text \<open>
  Claim C8: applying the same partial update twice yields the same final field values as
  applying it once. For courses and assignments, the second application returns what the
  first returned and leaves the state as the first left it.
\<close>

theorem update_idempotent:
  "update_course cid cu (snd (update_course cid cu s)) = update_course cid cu s \<and>
   update_assignment aid au (snd (update_assignment aid au s)) = update_assignment aid au s"
  by (simp add: update_course_twice update_assignment_twice)

theorem update_idempotent_witness:
  "update_course 7 credits_4 (snd (update_course 7 credits_4 busy_state)) =
     update_course 7 credits_4 busy_state \<and>
   credits (projr (fst (update_course 7 credits_4 busy_state))) = 4 \<and>
   update_assignment 9 later_due_date (snd (update_assignment 9 later_due_date busy_state)) =
     update_assignment 9 later_due_date busy_state \<and>
   due_date (projr (fst (update_assignment 9 later_due_date busy_state))) = Date 2025 10 20"
proof -
  have 1: "dict_get (courses busy_state) 7 = Some stored_course"
    by (simp add: busy_state_def dict_get_def)
  have 2: "dict_get (assignments busy_state) 9 = Some stored_assignment"
    by (simp add: busy_state_def dict_get_def)
  have 3: "CourseRead_patch stored_course credits_4 = Some (stored_course\<lparr>credits := 4\<rparr>)"
    by (simp add: CourseRead_patch_def credits_4_def empty_update_def patch_required_def
        patch_optional_def stored_course_def)
  have 4: "AssignmentRead_patch stored_assignment later_due_date =
             Some (stored_assignment\<lparr>due_date := Date 2025 10 20\<rparr>)"
    by (simp add: AssignmentRead_patch_def later_due_date_def empty_assignment_update_def
        patch_required_def patch_optional_def stored_assignment_def)
  from update_idempotent
    [where s = busy_state and cid = 7 and cu = credits_4 and aid = 9 and au = later_due_date]
  show ?thesis
    by (simp add: update_course_Inr [OF 1 3] update_assignment_Inr [OF 2 4])
qed

text \<open>
  Claim C9: an update of a stored course or address with an empty payload returns the
  stored record, equal in every field, \<open>updated_at\<close> included, and leaves the state
  unchanged.
\<close>

theorem empty_update_is_identity:
  "(dict_get (courses s) cid = Some c \<longrightarrow> update_course cid empty_update s = (Inr c, s)) \<and>
   (dict_get (addresses s) aid = Some a \<longrightarrow>
      update_address aid empty_address_update s = (Inr a, s))"
  by (simp add: update_course_eq update_address_eq CourseRead_patch_empty
      AddressRead_patch_empty dict_set_same)

theorem empty_update_is_identity_witness:
  "dict_get (courses busy_state) 7 = Some stored_course \<and>
   update_course 7 empty_update busy_state = (Inr stored_course, busy_state) \<and>
   dict_get (addresses busy_state) 3 = Some stored_address \<and>
   update_address 3 empty_address_update busy_state = (Inr stored_address, busy_state)"
proof -
  have 1: "dict_get (courses busy_state) 7 = Some stored_course"
    by (simp add: busy_state_def dict_get_def)
  have 2: "dict_get (addresses busy_state) 3 = Some stored_address"
    by (simp add: busy_state_def dict_get_def)
  from empty_update_is_identity [of busy_state 7 stored_course 3 stored_address] 1 2
  show ?thesis by simp
qed



end
